theory Spec2Isabelle
  imports Complex_Main "HOL-Library.Word"
begin

section \<open>Values exchanged with the outside world\<close>

text \<open>
  A Node \<open>Buffer\<close> is a list of bytes. JSON values (tool arguments, event payloads, the
  \<open>data\<close> objects handed to the database client) are a datatype; \<open>JUndefined\<close> is the
  value JavaScript yields when a property that is not there is read.
\<close>

type_synonym buffer = "8 word list"

datatype json =
    JUndefined
  | JNull
  | JBool bool
  | JNum real
  | JStr string
  | JArr "json list"
  | JObj "(string \<times> json) list"

datatype error =
    RangeError
  | TypeError
  | SyntaxError

text \<open>Reading property \<open>k\<close> of a value: \<open>o.k\<close>. (Reading from \<open>null\<close> throws; the one
  place in the session where that can happen writes the check out.)\<close>

fun getProp :: "json \<Rightarrow> string \<Rightarrow> json" where
  "getProp (JObj kvs) k = (case map_of kvs k of Some v \<Rightarrow> v | None \<Rightarrow> JUndefined)"
| "getProp _ k = JUndefined"

section \<open>Voice activity detection\<close>

text \<open>
  \<open>Buffer.readInt16LE(offset)\<close>: the two bytes at \<open>offset\<close> and \<open>offset + 1\<close> as a signed
  little-endian 16-bit integer; it throws a range error unless both bytes exist.
\<close>

definition int16 :: "8 word \<Rightarrow> 8 word \<Rightarrow> int" where
  "int16 b0 b1 =
     (let val = uint b0 + uint b1 * 2 ^ 8
      in if val \<ge> 2 ^ 15 then val - 2 ^ 16 else val)"

definition readInt16LE :: "buffer \<Rightarrow> nat \<Rightarrow> error + int" where
  "readInt16LE b offset =
     (if offset + 1 < length b then Inr (int16 (b ! offset) (b ! (offset + 1)))
      else Inl RangeError)"

text \<open>
  The loop of \<open>detectVoiceActivity\<close>:
  \<^verbatim>\<open>for (let i = 0; i < audio.length; i += 2) { sum += Math.abs(audio.readInt16LE(i)); }\<close>
\<close>

function vadLoop :: "buffer \<Rightarrow> nat \<Rightarrow> int \<Rightarrow> error + int" where
  "vadLoop audio i acc =
     (if i < length audio then
        (case readInt16LE audio i of
           Inl e \<Rightarrow> Inl e
         | Inr sample \<Rightarrow> vadLoop audio (i + 2) (acc + \<bar>sample\<bar>))
      else Inr acc)"
  by pat_completeness auto
termination
  by (relation "measure (\<lambda>(audio, i, acc). length audio - i)") auto

declare vadLoop.simps [simp del]

text \<open>
  \<open>avgEnergy = sum / (audio.length / 2)\<close> and the result \<open>avgEnergy > 200\<close>. The sum is an
  integer far below \<open>2^53\<close> for any frame the transport admits (1 MiB), so the double
  holding it is exact, and the rounded quotient lies on the same side of 200 as the exact
  one; the quotient is therefore taken in the reals. For the empty frame JavaScript
  computes \<open>0 / 0 = NaN\<close> and \<open>NaN > 200\<close> is false, which is written out.
\<close>

definition detectVoiceActivity :: "buffer \<Rightarrow> error + bool" where
  "detectVoiceActivity audio =
     (case vadLoop audio 0 0 of
        Inl e \<Rightarrow> Inl e
      | Inr acc \<Rightarrow>
          Inr (if length audio = 0 then False
               else real_of_int acc / (real (length audio) / 2) > 200))"

text \<open>The samples of a frame and the mean of their absolute values, in the words of the
  specification of the detector. (A frame without samples has the mean 0 here, division
  by zero being 0 in HOL; the detector answers false on the empty frame.)\<close>

fun samples :: "buffer \<Rightarrow> int list" where
  "samples (b0 # b1 # rest) = int16 b0 b1 # samples rest"
| "samples _ = []"

definition meanAbs :: "int list \<Rightarrow> real" where
  "meanAbs xs = real_of_int (sum_list (map abs xs)) / real (length xs)"

section \<open>The assistant, its tools and the tool executor\<close>

datatype first_message_mode = AssistantSpeaksFirst | AssistantWaitsForUser

record assistant =
  assistantName :: string
  systemPrompt :: string
  firstMessage :: "string option"
  firstMessageMode :: first_message_mode
  interruptionEnabled :: bool
  silenceTimeoutMs :: int
  maxCallDurationSeconds :: int

record function_definition =
  funcName :: string
  funcDescription :: string
  funcParameters :: json

record tool =
  toolId :: string
  toolName :: string
  toolType :: string
  toolDescription :: "string option"
  functionDefinition :: "function_definition option"
  serverUrl :: "string option"

record tool_definition =
  defName :: string
  defDescription :: string
  defParameters :: json

record tool_call =
  callIdent :: string
  callName :: string
  callArguments :: json

text \<open>\<open>a || b\<close> on an optional string: \<open>null\<close>, \<open>undefined\<close> and the empty string are falsy.\<close>

fun orElse :: "string option \<Rightarrow> string \<Rightarrow> string" where
  "orElse None d = d"
| "orElse (Some x) d = (if x = [] then d else x)"

text \<open>\<open>Map.set\<close>: a JavaScript \<open>Map\<close> keeps insertion order, and setting a key that is
  already there replaces the value in place.\<close>

fun mapSet :: "(string \<times> 'v) list \<Rightarrow> string \<Rightarrow> 'v \<Rightarrow> (string \<times> 'v) list" where
  "mapSet [] k v = [(k, v)]"
| "mapSet ((k', v') # m) k v = (if k' = k then (k, v) # m else (k', v') # mapSet m k v)"

definition newToolExecutor :: "tool list \<Rightarrow> (string \<times> tool) list" where
  "newToolExecutor ts = foldl (\<lambda>m t. mapSet m (toolName t) t) [] ts"

definition stringSchema :: "string \<Rightarrow> json" where
  "stringSchema d = JObj [(''type'', JStr ''string''), (''description'', JStr d)]"

text \<open>One iteration of the loop of \<open>getToolDefinitions\<close>: the definitions pushed for one tool.\<close>

definition toolDefinition :: "tool \<Rightarrow> tool_definition list" where
  "toolDefinition t =
     (if toolType t = ''function'' \<and> functionDefinition t \<noteq> None then
        (case functionDefinition t of
           Some funcDef \<Rightarrow>
             [\<lparr>defName = funcName funcDef, defDescription = funcDescription funcDef,
               defParameters = funcParameters funcDef\<rparr>]
         | None \<Rightarrow> [])
      else if toolType t = ''transfer'' then
        [\<lparr>defName = ''transferCall'',
          defDescription =
            orElse (toolDescription t) ''Transfer the call to another person or department'',
          defParameters = JObj
            [(''type'', JStr ''object''),
             (''properties'', JObj
                [(''reason'', stringSchema ''Reason for the transfer''),
                 (''destination'', stringSchema ''Who or where to transfer to'')]),
             (''required'', JArr [JStr ''destination''])]\<rparr>]
      else if toolType t = ''endCall'' then
        [\<lparr>defName = ''endCall'',
          defDescription = ''End the call when the conversation is complete'',
          defParameters = JObj
            [(''type'', JStr ''object''),
             (''properties'', JObj
                [(''reason'', stringSchema ''Reason for ending the call'')])]\<rparr>]
      else if toolType t = ''query'' then
        [\<lparr>defName = ''queryKnowledge_'' @ toolId t,
          defDescription =
            orElse (toolDescription t) ''Search the knowledge base for information'',
          defParameters = JObj
            [(''type'', JStr ''object''),
             (''properties'', JObj [(''query'', stringSchema ''The search query'')]),
             (''required'', JArr [JStr ''query''])]\<rparr>]
      else if toolType t = ''dtmf'' then
        [\<lparr>defName = ''pressDigits'',
          defDescription = ''Press phone keypad digits (DTMF tones)'',
          defParameters = JObj
            [(''type'', JStr ''object''),
             (''properties'', JObj
                [(''digits'', stringSchema ''The digits to press (0-9, *, #)'')]),
             (''required'', JArr [JStr ''digits''])]\<rparr>]
      else [])"

definition getToolDefinitions :: "(string \<times> tool) list \<Rightarrow> tool_definition list" where
  "getToolDefinitions tools = concat (map (\<lambda>(name, t). toolDefinition t) tools)"

section \<open>What the session does to the outside world\<close>

datatype role = System | User | Assistant | Tool

record message =
  role :: role
  content :: string
  toolCallId :: "string option"

text \<open>
  Every call the session makes on its socket, the database client, the file system, its
  providers and its callbacks is recorded, in order, in the session's \<open>effects\<close>.
  \<^item> \<open>SocketSend type data timestamp\<close>: \<open>socket.send(JSON.stringify({type, data, timestamp}))\<close>;
  \<^item> \<open>SocketSendAudio audio\<close>: \<open>socket.send(audio)\<close>, a binary frame;
  \<^item> \<open>CallUpdate id data\<close>: \<open>prisma.call.update({where: {id}, data})\<close>;
  \<^item> \<open>CallMessageCreate data\<close>: \<open>prisma.callMessage.create({data})\<close>;
  \<^item> \<open>SttTranscribe\<close>, \<open>LlmGenerate\<close>, \<open>TtsSynthesize\<close>: the request on which the session
    then awaits; the last two arguments of \<open>TtsSynthesize\<close> are the \<open>synthesisId\<close> and the
    \<open>ttsStart\<close> its continuation has captured.
  Only \<open>logger.error\<close> and \<open>logger.warn\<close> are recorded of the logging. The calls are
  taken to complete: a write to the database does not throw, and neither does a send on
  the socket (the socket of the \<open>ws\<close> package reports a send on a connection that is not
  open to the callback of \<open>send\<close>, which the session does not pass).
\<close>

datatype effect =
    SocketSend string json int
  | SocketSendAudio buffer
  | SocketClose
  | CallUpdate string "(string \<times> json) list"
  | CallMessageCreate "(string \<times> json) list"
  | WriteFile string buffer
  | SttTranscribe buffer int
  | LlmGenerate "message list" "tool_definition list" int
  | TtsSynthesize string nat int
  | LogError string
  | LogWarn string
  | OnEnd
  | OnSessionEnd

datatype fetch_outcome = FetchJson json | FetchStatus string | FetchThrew string

text \<open>
  What the session uses and this repository does not define is a parameter:
  \<open>JSON.stringify\<close> and \<open>JSON.parse\<close> (\<open>None\<close>: a syntax error), the HTTP request to a
  tool server, and whether a file can be written. \<open>calculateCosts\<close> is floating-point
  arithmetic on the duration whose rounding is outside this embedding; the session only
  passes its result on, so it is a parameter too.
\<close>

record world =
  jsonStringify :: "json \<Rightarrow> string"
  jsonParse :: "string \<Rightarrow> json option"
  fetch :: "string \<Rightarrow> json \<Rightarrow> fetch_outcome"
  writeFileOk :: "string \<Rightarrow> bool"
  calculateCosts :: "int \<Rightarrow> json"

definition queryKnowledgeBase :: "string \<Rightarrow> json \<Rightarrow> json" where
  "queryKnowledgeBase tid query =
     JObj [(''results'', JArr
       [JObj [(''content'', JStr ''This is a placeholder result. Implement vector search.''),
              (''score'', JNum (95 / 100))]])]"

definition unknownTool :: "string \<Rightarrow> json" where
  "unknownTool name = JObj [(''error'', JStr (''Unknown tool: '' @ name))]"

definition execute ::
  "world \<Rightarrow> (string \<times> tool) list \<Rightarrow> string \<Rightarrow> json \<Rightarrow> json \<times> effect list" where
  "execute w tools name args =
     (if name = ''endCall'' then
        (JObj [(''action'', JStr ''end_call''), (''reason'', getProp args ''reason'')], [])
      else if name = ''transferCall'' then
        (JObj [(''action'', JStr ''transfer''), (''destination'', getProp args ''destination''),
               (''reason'', getProp args ''reason'')], [])
      else if name = ''pressDigits'' then
        (JObj [(''action'', JStr ''dtmf''), (''digits'', getProp args ''digits'')], [])
      else if take 15 name = ''queryKnowledge_'' then
        (queryKnowledgeBase (drop 15 name) (getProp args ''query''), [])
      else
        (case find (\<lambda>t. case functionDefinition t of
                            None \<Rightarrow> False
                          | Some funcDef \<Rightarrow> funcName funcDef = name) (map snd tools) of
           None \<Rightarrow> (unknownTool name, [])
         | Some t \<Rightarrow>
             (case serverUrl t of
                None \<Rightarrow> (unknownTool name, [])
              | Some url \<Rightarrow>
                  if url = [] then (unknownTool name, [])
                  else
                    (case fetch w url (JObj [(''tool'', JStr name), (''arguments'', args)]) of
                       FetchJson v \<Rightarrow> (v, [])
                     | FetchStatus code \<Rightarrow>
                         (JObj [(''error'', JStr (''Tool server error: '' @ code))],
                          [LogError ''Tool execution error''])
                     | FetchThrew msg \<Rightarrow>
                         (JObj [(''error'', JStr msg)], [LogError ''Tool execution error''])))))"

section \<open>The voice session\<close>

datatype session_state = Idle | Listening | Thinking | Speaking

datatype ready_state = CONNECTING | OPEN | CLOSING | CLOSED

text \<open>
  Time is a parameter: every operation is given \<open>now\<close>, the value of \<open>Date.now()\<close> while it
  runs. An \<open>async\<close> method is split where it awaits a provider: the part before the
  \<open>await\<close> issues the request, and the rest (named \<open>_resume\<close>) runs when the provider has
  settled, with what the continuation has captured as arguments; other handlers of the
  session may run in between. The awaits on the database, the file system and a tool
  server are passed in one go.

  The fields of \<open>VoiceSession\<close>, and with them the part of the world the session acts on:
  the \<open>readyState\<close> of its socket, whether its socket handlers are installed, whether the
  resolver \<open>onSessionEnd\<close> is set, the callbacks it has registered with \<open>setTimeout\<close> and
  that have not run (the time each is due and the \<open>synthesisId\<close> it has captured), and the
  effects so far.
\<close>

record session =
  callId :: string
  assistant :: assistant
  toolExecutor :: "(string \<times> tool) list"
  messages :: "message list"
  state :: session_state
  startTime :: int
  isEnded :: bool
  onSessionEnd :: bool
  audioBuffer :: "buffer list"
  silenceStart :: int
  isSpeaking :: bool
  currentSynthesisId :: nat
  userAudioChunks :: "buffer list"
  assistantAudioChunks :: "buffer list"
  sttLatency :: "int list"
  llmLatency :: "int list"
  ttsLatency :: "int list"
  readyState :: ready_state
  handlersInstalled :: bool
  timers :: "(int \<times> nat) list"
  effects :: "effect list"

text \<open>The constructor: providers and tool executor are set up and the history is seeded
  with the system prompt.\<close>

definition newSession :: "string \<Rightarrow> assistant \<Rightarrow> tool list \<Rightarrow> session" where
  "newSession cid a ts =
     \<lparr>callId = cid, assistant = a, toolExecutor = newToolExecutor ts,
      messages = [\<lparr>role = System, content = systemPrompt a, toolCallId = None\<rparr>],
      state = Idle, startTime = 0, isEnded = False, onSessionEnd = False,
      audioBuffer = [], silenceStart = 0, isSpeaking = False, currentSynthesisId = 0,
      userAudioChunks = [], assistantAudioChunks = [],
      sttLatency = [], llmLatency = [], ttsLatency = [],
      readyState = OPEN, handlersInstalled = False, timers = [], effects = []\<rparr>"

definition emit :: "effect \<Rightarrow> session \<Rightarrow> session" where
  "emit e s = s\<lparr>effects := effects s @ [e]\<rparr>"

definition sendEvent :: "int \<Rightarrow> string \<Rightarrow> json \<Rightarrow> session \<Rightarrow> session" where
  "sendEvent now type data s = emit (SocketSend type data now) s"

definition sendAudio :: "buffer \<Rightarrow> session \<Rightarrow> session" where
  "sendAudio audio s =
     (if readyState s \<noteq> OPEN then emit (LogWarn ''Socket not open'') s
      else emit (SocketSendAudio audio)
             (s\<lparr>assistantAudioChunks := assistantAudioChunks s @ [audio]\<rparr>))"

text \<open>\<open>saveMessage\<close> copies the fields of its argument into the row it creates; a field
  the argument does not have is \<open>undefined\<close> there.\<close>

definition saveMessage :: "json \<Rightarrow> session \<Rightarrow> session" where
  "saveMessage m s =
     emit (CallMessageCreate
       [(''callId'', JStr (callId s)),
        (''role'', getProp m ''role''),
        (''content'', getProp m ''content''),
        (''toolName'', getProp m ''toolName''),
        (''toolArguments'', getProp m ''toolArguments''),
        (''toolResult'', getProp m ''toolResult''),
        (''timestampMs'', getProp m ''timestampMs''),
        (''sttLatencyMs'', getProp m ''sttLatencyMs''),
        (''llmLatencyMs'', getProp m ''llmLatencyMs''),
        (''ttsLatencyMs'', getProp m ''ttsLatencyMs'')]) s"

definition pushMessage :: "message \<Rightarrow> session \<Rightarrow> session" where
  "pushMessage m s = s\<lparr>messages := messages s @ [m]\<rparr>"

subsection \<open>Interruption and synthesis\<close>

definition handleInterrupt :: "int \<Rightarrow> session \<Rightarrow> session" where
  "handleInterrupt now s =
     (if state s \<noteq> Speaking then s
      else
        (sendEvent now ''assistant.interrupted''
           (JObj [(''clearAudio'', JBool True), (''reason'', JStr ''user-speech'')])
           (s\<lparr>currentSynthesisId := currentSynthesisId s + 1, state := Listening\<rparr>))
        \<lparr>audioBuffer := []\<rparr>)"

text \<open>
  \<open>synthesizeAndPlay\<close> up to \<open>await this.tts.synthesize(text)\<close>: the request is issued with
  the \<open>synthesisId\<close> and \<open>ttsStart\<close> the continuation keeps. Other handlers of the session
  run while the request is pending.
\<close>

definition synthesizeAndPlay :: "int \<Rightarrow> string \<Rightarrow> int \<Rightarrow> session \<Rightarrow> session" where
  "synthesizeAndPlay now text llmLat s =
     (let s1 = s\<lparr>state := Speaking\<rparr>;
          ttsStart = now;
          s2 = s1\<lparr>currentSynthesisId := currentSynthesisId s1 + 1\<rparr>;
          synthesisId = currentSynthesisId s2
      in emit (TtsSynthesize text synthesisId ttsStart) s2)"

datatype tts_outcome = Audio buffer | TtsThrew string

text \<open>The rest of \<open>synthesizeAndPlay\<close>, run when the provider has answered (or thrown):
  \<open>synthesisId\<close> and \<open>ttsStart\<close> are the values captured before the request.\<close>

definition synthesizeAndPlay_resume ::
  "int \<Rightarrow> nat \<Rightarrow> int \<Rightarrow> tts_outcome \<Rightarrow> session \<Rightarrow> session" where
  "synthesizeAndPlay_resume now synthesisId ttsStart outcome s =
     (case outcome of
        Audio audio \<Rightarrow>
          if state s \<noteq> Speaking \<or> currentSynthesisId s \<noteq> synthesisId then s
          else
            (let s1 = s\<lparr>ttsLatency := ttsLatency s @ [now - ttsStart]\<rparr>;
                 s2 = sendEvent now ''assistant.speaking'' (JObj []) s1;
                 s3 = sendAudio audio s2;
                 s4 = s3\<lparr>assistantAudioChunks := assistantAudioChunks s3 @ [audio]\<rparr>;
                 audioDurationMs = int (length audio) div 48;
                 playbackDelay = max 500 (audioDurationMs + 200)
             in s4\<lparr>timers := timers s4 @ [(now + playbackDelay, synthesisId)]\<rparr>)
      | TtsThrew err \<Rightarrow>
          (let s1 = emit (LogError ''TTS error'') s
           in if state s1 = Speaking \<and> currentSynthesisId s1 = synthesisId then
                sendEvent now ''assistant.audio.done'' (JObj []) (s1\<lparr>state := Listening\<rparr>)
              else s1))"

text \<open>The callback given to \<open>setTimeout\<close> in \<open>synthesizeAndPlay\<close>.\<close>

definition playbackTimeout :: "int \<Rightarrow> nat \<Rightarrow> session \<Rightarrow> session" where
  "playbackTimeout now synthesisId s =
     (if state s = Speaking \<and> currentSynthesisId s = synthesisId then
        sendEvent now ''assistant.audio.done'' (JObj [])
          (s\<lparr>state := Listening, isSpeaking := False, audioBuffer := []\<rparr>)
      else s)"

text \<open>The event loop at time \<open>now\<close>: every registered callback that is due runs, the
  earliest first, and is then gone.\<close>

definition runTimers :: "int \<Rightarrow> session \<Rightarrow> session" where
  "runTimers now s =
     foldl (\<lambda>s' t. playbackTimeout now (snd t) s')
       (s\<lparr>timers := filter (\<lambda>t. now < fst t) (timers s)\<rparr>)
       (sort_key fst (filter (\<lambda>t. fst t \<le> now) (timers s)))"

subsection \<open>Ending the session\<close>

definition userPath :: "session \<Rightarrow> string" where
  "userPath s = ''recordings/'' @ callId s @ ''-user.pcm''"

definition assistantPath :: "session \<Rightarrow> string" where
  "assistantPath s = ''recordings/'' @ callId s @ ''-assistant.pcm''"

text \<open>\<open>saveRecording\<close>: a failed write throws, and the \<open>catch\<close> logs it and gives up the rest.
  Paths are relative to the working directory of the process.\<close>

definition saveRecording :: "world \<Rightarrow> session \<Rightarrow> session" where
  "saveRecording w s =
     (if userAudioChunks s \<noteq> [] \<and> \<not> writeFileOk w (userPath s) then
        emit (LogError ''Failed to save recording'') s
      else
        (let s1 = (if userAudioChunks s \<noteq> []
                   then emit (WriteFile (userPath s) (concat (userAudioChunks s))) s else s)
         in if assistantAudioChunks s1 \<noteq> [] \<and> \<not> writeFileOk w (assistantPath s1) then
              emit (LogError ''Failed to save recording'') s1
            else
              (let s2 = (if assistantAudioChunks s1 \<noteq> []
                         then emit (WriteFile (assistantPath s1)
                                (concat (assistantAudioChunks s1))) s1
                         else s1)
               in emit (CallUpdate (callId s2)
                    [(''recordingUrl'', JStr (''/recordings/'' @ callId s2 @ ''-user.pcm'')),
                     (''stereoRecordingUrl'',
                        JStr (''/recordings/'' @ callId s2 @ ''-assistant.pcm''))]) s2)))"

definition closeSocket :: "session \<Rightarrow> session" where
  "closeSocket s =
     emit SocketClose (s\<lparr>readyState := (if readyState s = CLOSED then CLOSED else CLOSING)\<rparr>)"

definition end_session :: "world \<Rightarrow> int \<Rightarrow> string \<Rightarrow> session \<Rightarrow> session" where
  "end_session w now reason s =
     (if isEnded s then s
      else
        (let s1 = s\<lparr>isEnded := True\<rparr>;
             duration = (now - startTime s1) div 1000;
             costBreakdown = calculateCosts w duration;
             s2 = emit (CallUpdate (callId s1)
                    [(''status'', JStr ''completed''),
                     (''endedReason'', JStr reason),
                     (''endedAt'', JNum (of_int now)),
                     (''durationSeconds'', JNum (of_int duration)),
                     (''costCents'', getProp costBreakdown ''total''),
                     (''costBreakdown'', costBreakdown)]) s1;
             s3 = sendEvent now ''call.ended''
                    (JObj [(''reason'', JStr reason), (''duration'', JNum (of_int duration)),
                           (''costs'', costBreakdown)]) s2;
             s4 = saveRecording w s3;
             s5 = closeSocket s4;
             s6 = emit OnEnd s5
         in if onSessionEnd s6 then emit OnSessionEnd s6 else s6))"

subsection \<open>The turn: speech, transcript, response, tools\<close>

text \<open>\<open>processUserSpeech\<close> up to \<open>await this.stt.transcribe(audioData)\<close>.\<close>

definition processUserSpeech :: "int \<Rightarrow> session \<Rightarrow> session" where
  "processUserSpeech now s =
     (if length (audioBuffer s) = 0 then s
      else
        (let audioData = concat (audioBuffer s);
             s1 = s\<lparr>audioBuffer := []\<rparr>;
             s2 = sendEvent now ''assistant.thinking'' (JObj []) s1;
             s3 = s2\<lparr>state := Thinking\<rparr>
         in emit (SttTranscribe audioData now) s3))"

text \<open>\<open>generateResponse\<close> up to \<open>await this.llm.generate(...)\<close>.\<close>

definition generateResponse :: "int \<Rightarrow> session \<Rightarrow> session" where
  "generateResponse now s =
     emit (LlmGenerate (messages s) (getToolDefinitions (toolExecutor s)) now) s"

definition handleToolCall :: "world \<Rightarrow> int \<Rightarrow> tool_call \<Rightarrow> session \<Rightarrow> session" where
  "handleToolCall w now toolCall s =
     (let s1 = sendEvent now ''tool.called''
                 (JObj [(''name'', JStr (callName toolCall)),
                        (''arguments'', callArguments toolCall)]) s
      in if callName toolCall = ''endCall'' then end_session w now ''assistant-ended'' s1
         else if callName toolCall = ''transferCall'' then
           sendEvent now ''transfer.started''
             (JObj [(''destination'', getProp (callArguments toolCall) ''number'')]) s1
         else
           (let executed = execute w (toolExecutor s1) (callName toolCall) (callArguments toolCall);
                result = fst executed;
                s2 = s1\<lparr>effects := effects s1 @ snd executed\<rparr>;
                s3 = sendEvent now ''tool.result''
                       (JObj [(''name'', JStr (callName toolCall)), (''result'', result)]) s2;
                s4 = pushMessage \<lparr>role = Tool, content = jsonStringify w result,
                                   toolCallId = Some (callIdent toolCall)\<rparr> s3
            in saveMessage
                 (JObj [(''role'', JStr ''tool''),
                        (''content'', JStr (jsonStringify w result)),
                        (''toolName'', JStr (callName toolCall)),
                        (''toolArguments'', callArguments toolCall),
                        (''toolResult'', result),
                        (''timestampMs'', JNum (of_int (now - startTime s4)))]) s4))"

datatype llm_outcome = LlmResponse string "tool_call list" | LlmThrew string

text \<open>The rest of \<open>generateResponse\<close>. \<open>LlmResponse content toolCalls\<close> is the provider's
  answer (no content: the empty string; no tool calls: the empty list).\<close>

definition generateResponse_resume ::
  "world \<Rightarrow> int \<Rightarrow> int \<Rightarrow> llm_outcome \<Rightarrow> session \<Rightarrow> session" where
  "generateResponse_resume w now llmStart outcome s =
     (case outcome of
        LlmThrew errorMessage \<Rightarrow>
          sendEvent now ''assistant.audio.done'' (JObj [])
            ((emit (LogError ''LLM error'') s)\<lparr>state := Listening\<rparr>)
      | LlmResponse text toolCalls \<Rightarrow>
          (let llmLat = now - llmStart;
               s1 = s\<lparr>llmLatency := llmLatency s @ [llmLat]\<rparr>
           in if toolCalls \<noteq> [] then
                generateResponse now (foldl (\<lambda>s' toolCall. handleToolCall w now toolCall s') s1 toolCalls)
              else if text \<noteq> [] then
                (let s2 = pushMessage \<lparr>role = Assistant, content = text, toolCallId = None\<rparr> s1;
                     s3 = sendEvent now ''assistant.message'' (JObj [(''text'', JStr text)]) s2;
                     s4 = saveMessage
                            (JObj [(''role'', JStr ''assistant''), (''content'', JStr text),
                                   (''timestampMs'', JNum (of_int (now - startTime s3))),
                                   (''llmLatencyMs'', JNum (of_int llmLat))]) s3
                 in synthesizeAndPlay now text llmLat s4)
              else s1))"

datatype stt_outcome = Transcript string | SttThrew string

text \<open>\<open>!transcript || transcript.trim().length === 0\<close>, on the ASCII white space.\<close>

definition blank :: "string \<Rightarrow> bool" where
  "blank transcript = list_all (\<lambda>c. (of_char c :: nat) \<in> {9, 10, 11, 12, 13, 32}) transcript"

text \<open>The rest of \<open>processUserSpeech\<close>, run when the transcriber has answered or thrown.\<close>

definition processUserSpeech_resume ::
  "int \<Rightarrow> int \<Rightarrow> stt_outcome \<Rightarrow> session \<Rightarrow> session" where
  "processUserSpeech_resume now sttStart outcome s =
     (case outcome of
        SttThrew err \<Rightarrow> (emit (LogError ''STT error'') s)\<lparr>state := Listening\<rparr>
      | Transcript transcript \<Rightarrow>
          (let sttLat = now - sttStart;
               s1 = s\<lparr>sttLatency := sttLatency s @ [sttLat]\<rparr>
           in if blank transcript then s1\<lparr>state := Listening\<rparr>
              else
                (let s2 = sendEvent now ''transcript.final'' (JObj [(''text'', JStr transcript)]) s1;
                     s3 = pushMessage \<lparr>role = User, content = transcript, toolCallId = None\<rparr> s2;
                     s4 = saveMessage
                            (JObj [(''role'', JStr ''user''), (''content'', JStr transcript),
                                   (''timestampMs'', JNum (of_int (now - startTime s3))),
                                   (''sttLatencyMs'', JNum (of_int sttLat))]) s3
                 in generateResponse now s4)))"

subsection \<open>Audio frames and control messages\<close>

text \<open>\<open>const silenceTimeout = Math.min(this.assistant.silenceTimeoutMs, 1200)\<close>\<close>

definition silenceTimeout :: "assistant \<Rightarrow> int" where
  "silenceTimeout a = min (silenceTimeoutMs a) 1200"

text \<open>\<open>handleAudioData\<close> returns the session as it leaves it and, when
  \<open>detectVoiceActivity\<close> has thrown, the error that propagates to its caller.\<close>

definition handleAudioData :: "int \<Rightarrow> buffer \<Rightarrow> session \<Rightarrow> error option \<times> session" where
  "handleAudioData now frame s =
     (if isEnded s then (None, s)
      else
        (let s1 = s\<lparr>userAudioChunks := userAudioChunks s @ [frame]\<rparr>
         in if state s1 = Speaking \<and> interruptionEnabled (assistant s1) then
              (case detectVoiceActivity frame of
                 Inl e \<Rightarrow> (Some e, s1)
               | Inr hasVoice \<Rightarrow>
                   if hasVoice then
                     (let s2 = handleInterrupt now s1;
                          s3 = s2\<lparr>audioBuffer := audioBuffer s2 @ [frame],
                                  isSpeaking := True, silenceStart := 0\<rparr>
                      in (None, sendEvent now ''speech.started'' (JObj []) s3))
                   else (None, s1))
            else
              (let s2 = s1\<lparr>audioBuffer := audioBuffer s1 @ [frame]\<rparr>
               in case detectVoiceActivity frame of
                    Inl e \<Rightarrow> (Some e, s2)
                  | Inr hasVoice \<Rightarrow>
                      if hasVoice then
                        (let s3 = (if \<not> isSpeaking s2
                                   then sendEvent now ''speech.started'' (JObj []) s2 else s2);
                             s4 = s3\<lparr>isSpeaking := True, silenceStart := 0\<rparr>
                         in (None, if state s4 \<noteq> Listening then s4\<lparr>state := Listening\<rparr> else s4))
                      else if isSpeaking s2 then
                        (let s3 = (if silenceStart s2 = 0 then s2\<lparr>silenceStart := now\<rparr> else s2);
                             silenceDuration = now - silenceStart s3
                         in if silenceDuration > silenceTimeout (assistant s3) then
                              (None, processUserSpeech now
                                       (sendEvent now ''speech.ended'' (JObj [])
                                          (s3\<lparr>isSpeaking := False\<rparr>)))
                            else (None, s3))
                      else (None, s2))))"

definition handleControlMessage ::
  "world \<Rightarrow> int \<Rightarrow> json \<Rightarrow> session \<Rightarrow> error option \<times> session" where
  "handleControlMessage w now msg s =
     (if msg = JNull then (Some TypeError, s)
      else if getProp msg ''type'' = JStr ''end'' then
        (None, end_session w now ''client-request'' s)
      else if getProp msg ''type'' = JStr ''interrupt'' then (None, handleInterrupt now s)
      else (None, s))"

datatype ws_data = Binary buffer | Text string

text \<open>The handlers that \<open>setupSocketHandlers\<close> installs.\<close>

definition caught :: "error option \<times> session \<Rightarrow> session" where
  "caught r =
     (case fst r of
        None \<Rightarrow> snd r
      | Some e \<Rightarrow> emit (LogError ''Error handling message'') (snd r))"

definition onMessage :: "world \<Rightarrow> int \<Rightarrow> ws_data \<Rightarrow> session \<Rightarrow> session" where
  "onMessage w now d s =
     (case d of
        Binary frame \<Rightarrow> caught (handleAudioData now frame s)
      | Text t \<Rightarrow>
          (case jsonParse w t of
             None \<Rightarrow> caught (Some SyntaxError, s)
           | Some msg \<Rightarrow> caught (handleControlMessage w now msg s)))"

definition onClose :: "world \<Rightarrow> int \<Rightarrow> session \<Rightarrow> session" where
  "onClose w now s =
     (let s1 = s\<lparr>readyState := CLOSED\<rparr>
      in if \<not> isEnded s1 then end_session w now ''client-disconnect'' s1 else s1)"

definition onError :: "session \<Rightarrow> session" where
  "onError s = emit (LogError ''Socket error'') s"

subsection \<open>Starting the session\<close>

text \<open>\<open>start\<close> up to its awaiting the synthesis of the first message (or, without one, the
  end of the session).\<close>

definition start :: "int \<Rightarrow> session \<Rightarrow> session" where
  "start now s =
     (let s1 = s\<lparr>startTime := now, onSessionEnd := True\<rparr>;
          s2 = sendEvent now ''call.started''
                 (JObj [(''callId'', JStr (callId s1)),
                        (''assistant'', JStr (assistantName (assistant s1)))]) s1;
          s3 = emit (CallUpdate (callId s2)
                 [(''status'', JStr ''active''), (''startedAt'', JNum (of_int now))]) s2;
          s4 = s3\<lparr>handlersInstalled := True\<rparr>;
          s5 = s4\<lparr>state := Listening\<rparr>
      in case firstMessage (assistant s5) of
           None \<Rightarrow> s5
         | Some text \<Rightarrow>
             if text = [] then s5
             else
               (let s6 = pushMessage \<lparr>role = Assistant, content = text, toolCallId = None\<rparr> s5;
                    s7 = sendEvent now ''assistant.message'' (JObj [(''text'', JStr text)]) s6;
                    s8 = saveMessage
                           (JObj [(''role'', JStr ''assistant''), (''content'', JStr text),
                                  (''timestampMs'', JNum 0)]) s7
                in synthesizeAndPlay now text 0 s8))"

text \<open>The route \<open>/ws/:callId\<close>, from the creation of the session on: it marks the call
  and starts the session.\<close>

definition wsRoute :: "int \<Rightarrow> string \<Rightarrow> assistant \<Rightarrow> tool list \<Rightarrow> session" where
  "wsRoute now cid a ts =
     start now
       (emit (CallUpdate cid
          [(''status'', JStr ''in-progress''), (''startedAt'', JNum (of_int now))])
          (newSession cid a ts))"

subsection \<open>The session as a reactive system\<close>

text \<open>
  Everything that makes the session run: the call of \<open>start\<close>, the events of its socket,
  the answers of its three providers (with what the awaiting continuation has captured),
  the passing of time, and a call of \<open>end\<close> from outside (the route
  \<open>/sessions/:callId/end\<close> with reason \<open>api-request\<close>, the shutdown handler with
  \<open>server-shutdown\<close>). The socket handlers exist once \<open>start\<close> has installed them.
\<close>

datatype input =
    Start
  | SocketMessage ws_data
  | SocketClosed
  | SocketError
  | SttSettled int stt_outcome
  | LlmSettled int llm_outcome
  | TtsSettled nat int tts_outcome
  | TimePasses
  | EndCalled string

fun step :: "world \<Rightarrow> int \<Rightarrow> input \<Rightarrow> session \<Rightarrow> session" where
  "step w now Start s = start now s"
| "step w now (SocketMessage d) s = (if handlersInstalled s then onMessage w now d s else s)"
| "step w now SocketClosed s = (if handlersInstalled s then onClose w now s else s)"
| "step w now SocketError s = (if handlersInstalled s then onError s else s)"
| "step w now (SttSettled sttStart outcome) s = processUserSpeech_resume now sttStart outcome s"
| "step w now (LlmSettled llmStart outcome) s = generateResponse_resume w now llmStart outcome s"
| "step w now (TtsSettled synthesisId ttsStart outcome) s =
     synthesizeAndPlay_resume now synthesisId ttsStart outcome s"
| "step w now TimePasses s = runTimers now s"
| "step w now (EndCalled reason) s = end_session w now reason s"

fun run :: "world \<Rightarrow> (int \<times> input) list \<Rightarrow> session \<Rightarrow> session" where
  "run w [] s = s"
| "run w (e # es) s = run w es (step w (fst e) (snd e) s)"

subsection \<open>Reading the effects\<close>

fun isEvent :: "string \<Rightarrow> effect \<Rightarrow> bool" where
  "isEvent t (SocketSend ty d ts) = (ty = t)"
| "isEvent t _ = False"

fun isAudio :: "effect \<Rightarrow> bool" where
  "isAudio (SocketSendAudio audio) = True"
| "isAudio _ = False"

fun statusWritten :: "effect \<Rightarrow> json" where
  "statusWritten (CallUpdate cid kvs) = getProp (JObj kvs) ''status''"
| "statusWritten _ = JUndefined"

fun isMessageCreate :: "effect \<Rightarrow> bool" where
  "isMessageCreate (CallMessageCreate kvs) = True"
| "isMessageCreate _ = False"

fun isTranscribe :: "effect \<Rightarrow> bool" where
  "isTranscribe (SttTranscribe audio sttStart) = True"
| "isTranscribe _ = False"

fun isSynthesis :: "effect \<Rightarrow> bool" where
  "isSynthesis (TtsSynthesize text sid ttsStart) = True"
| "isSynthesis _ = False"

text \<open>What a handler has added to the effects: those of \<open>s'\<close> beyond those of \<open>s\<close>.\<close>

definition emitted :: "session \<Rightarrow> session \<Rightarrow> effect list" where
  "emitted s s' = drop (length (effects s)) (effects s')"

section \<open>A concrete call\<close>

text \<open>A world and an assistant on which the session is run in the examples below: the
  assistant greets with \<open>Hi.\<close>, allows interruption, ends a turn after 800 ms of silence
  and is configured with a maximum call duration of 60 seconds.\<close>

definition quietWorld :: world where
  "quietWorld =
     \<lparr>jsonStringify = (\<lambda>v. ''{}''), jsonParse = (\<lambda>t. None),
      fetch = (\<lambda>url body. FetchStatus ''500''), writeFileOk = (\<lambda>p. True),
      calculateCosts = (\<lambda>d. JObj [(''total'', JNum 0)])\<rparr>"

definition greeter :: assistant where
  "greeter =
     \<lparr>assistantName = ''Ann'', systemPrompt = ''Be brief.'', firstMessage = Some ''Hi.'',
      firstMessageMode = AssistantSpeaksFirst, interruptionEnabled = True,
      silenceTimeoutMs = 800, maxCallDurationSeconds = 60\<rparr>"

definition listener :: assistant where
  "listener = greeter\<lparr>firstMessage := None\<rparr>"

definition patient :: assistant where
  "patient = greeter\<lparr>firstMessage := None, silenceTimeoutMs := 5000\<rparr>"

text \<open>The same assistant set to wait for the user.\<close>

definition waiter :: assistant where
  "waiter = greeter\<lparr>firstMessageMode := AssistantWaitsForUser\<rparr>"

section \<open>Notions the properties are stated with\<close>

text \<open>\<open>end\<close> invoked once for each element of a list of pairs (time of the call, reason).\<close>

definition endRepeatedly :: "world \<Rightarrow> session \<Rightarrow> (int \<times> string) list \<Rightarrow> session" where
  "endRepeatedly w s calls = foldl (\<lambda>s' c. end_session w (fst c) (snd c) s') s calls"

text \<open>A write of the recording URLs to the Call row, and a write of a file at a path.\<close>

fun isUrlUpdate :: "effect \<Rightarrow> bool" where
  "isUrlUpdate (CallUpdate cid kvs) = (getProp (JObj kvs) ''recordingUrl'' \<noteq> JUndefined)"
| "isUrlUpdate _ = False"

fun isWriteTo :: "string \<Rightarrow> effect \<Rightarrow> bool" where
  "isWriteTo p (WriteFile path bytes) = (path = p)"
| "isWriteTo p _ = False"

text \<open>The values of the type \<open>CallStatus\<close> that the shared package declares.\<close>

definition CallStatus :: "string list" where
  "CallStatus =
     [''queued'', ''ringing'', ''in-progress'', ''completed'', ''failed'', ''no-answer'', ''busy'']"

text \<open>A transfer tool, as an assistant may have it.\<close>

definition transferTool :: tool where
  "transferTool =
     \<lparr>toolId = ''t1'', toolName = ''transfer'', toolType = ''transfer'', toolDescription = None,
      functionDefinition = None, serverUrl = None\<rparr>"

text \<open>The session with the maximum call duration of its assistant set to \<open>d\<close>.\<close>

definition withMaxDuration :: "int \<Rightarrow> session \<Rightarrow> session" where
  "withMaxDuration d s = s\<lparr>assistant := (assistant s)\<lparr>maxCallDurationSeconds := d\<rparr>\<rparr>"

text \<open>A \<open>call.ended\<close> event with the given reason, and those with reason \<open>max-duration\<close>
  that a session has sent.\<close>

fun endedWith :: "string \<Rightarrow> effect \<Rightarrow> bool" where
  "endedWith r (SocketSend ty d ts) = (ty = ''call.ended'' \<and> getProp d ''reason'' = JStr r)"
| "endedWith r _ = False"

definition maxDurationEnds :: "session \<Rightarrow> effect list" where
  "maxDurationEnds s = filter (endedWith ''max-duration'') (effects s)"

section \<open>Voice activity detection: the loop and the mean\<close>

lemma samples_drop:
  "i + 1 < length audio \<Longrightarrow>
   samples (drop i audio) = int16 (audio ! i) (audio ! (i + 1)) # samples (drop (i + 2) audio)"
proof -
  assume less: "i + 1 < length audio"
  then have "drop i audio = audio ! i # audio ! (i + 1) # drop (i + 2) audio"
    by (simp add: Cons_nth_drop_Suc)
  then show ?thesis by simp
qed

lemma vadLoop_even:
  "even (length audio) \<Longrightarrow> even i \<Longrightarrow>
   vadLoop audio i acc = Inr (acc + sum_list (map abs (samples (drop i audio))))"
proof (induction audio i acc rule: vadLoop.induct)
  case (1 audio i acc)
  show ?case
  proof (cases "i < length audio")
    case False
    then show ?thesis by (simp add: vadLoop.simps [of audio i acc])
  next
    case True
    with "1.prems" have less: "i + 1 < length audio"
      by (metis Suc_eq_plus1 Suc_lessI even_Suc)
    then have rd: "readInt16LE audio i = Inr (int16 (audio ! i) (audio ! (i + 1)))"
      by (simp add: readInt16LE_def)
    from "1.prems" have "even (i + 2)" by simp
    with "1.IH" [OF True rd] "1.prems"
    have "vadLoop audio (i + 2) (acc + \<bar>int16 (audio ! i) (audio ! (i + 1))\<bar>) =
          Inr (acc + \<bar>int16 (audio ! i) (audio ! (i + 1))\<bar>
                 + sum_list (map abs (samples (drop (i + 2) audio))))"
      by simp
    with True rd less show ?thesis
      by (simp add: vadLoop.simps [of audio i acc] samples_drop)
  qed
qed

lemma vadLoop_odd:
  "odd (length audio) \<Longrightarrow> even i \<Longrightarrow> i \<le> length audio \<Longrightarrow>
   vadLoop audio i acc = Inl RangeError"
proof (induction audio i acc rule: vadLoop.induct)
  case (1 audio i acc)
  from "1.prems" have lt: "i < length audio"
    by (metis le_neq_implies_less)
  show ?case
  proof (cases "i + 1 < length audio")
    case False
    then have "readInt16LE audio i = Inl RangeError"
      by (simp add: readInt16LE_def)
    with lt show ?thesis by (simp add: vadLoop.simps [of audio i acc])
  next
    case True
    then have rd: "readInt16LE audio i = Inr (int16 (audio ! i) (audio ! (i + 1)))"
      by (simp add: readInt16LE_def)
    from True have "i + 2 \<le> length audio" by simp
    with "1.IH" [OF lt rd] "1.prems"
    have "vadLoop audio (i + 2) (acc + \<bar>int16 (audio ! i) (audio ! (i + 1))\<bar>) = Inl RangeError"
      by simp
    with lt rd show ?thesis by (simp add: vadLoop.simps [of audio i acc])
  qed
qed

lemma length_samples: "even (length audio) \<Longrightarrow> 2 * length (samples audio) = length audio"
  by (induction audio rule: samples.induct) auto

lemma detectVoiceActivity_even:
  "even (length audio) \<Longrightarrow>
   detectVoiceActivity audio = Inr (meanAbs (samples audio) > 200)"
proof -
  assume ev: "even (length audio)"
  then have loop: "vadLoop audio 0 0 = Inr (sum_list (map abs (samples audio)))"
    using vadLoop_even [of audio 0 0] by simp
  from ev have len: "real (length audio) / 2 = real (length (samples audio))"
    using length_samples [of audio] by (metis nonzero_mult_div_cancel_left of_nat_mult of_nat_numeral zero_neq_numeral)
  from loop have "detectVoiceActivity audio =
      Inr (if length audio = 0 then False
           else real_of_int (sum_list (map abs (samples audio))) / (real (length audio) / 2) > 200)"
    by (simp add: detectVoiceActivity_def)
  also have "\<dots> = Inr (meanAbs (samples audio) > 200)"
    using len by (cases "length audio = 0") (simp_all add: meanAbs_def)
  finally show ?thesis .
qed

lemma detectVoiceActivity_odd:
  "odd (length audio) \<Longrightarrow> detectVoiceActivity audio = Inl RangeError"
  using vadLoop_odd [of audio 0 0] by (simp add: detectVoiceActivity_def)

section \<open>The synthesis counter\<close>

text \<open>How each operation of the session treats \<open>currentSynthesisId\<close>.\<close>

lemmas basics = emit_def sendEvent_def pushMessage_def saveMessage_def

lemma csid_handleInterrupt:
  "currentSynthesisId (handleInterrupt now s) =
     (if state s = Speaking then currentSynthesisId s + 1 else currentSynthesisId s)"
  by (simp add: handleInterrupt_def basics)

lemma csid_synthesizeAndPlay:
  "currentSynthesisId (synthesizeAndPlay now utterance l s) = currentSynthesisId s + 1"
  by (simp add: synthesizeAndPlay_def basics Let_def)

lemma csid_sendAudio: "currentSynthesisId (sendAudio a s) = currentSynthesisId s"
  by (simp add: sendAudio_def basics)

lemma csid_synthesizeAndPlay_resume:
  "currentSynthesisId (synthesizeAndPlay_resume now sid t0 outcome s) = currentSynthesisId s"
  by (cases outcome) (simp_all add: synthesizeAndPlay_resume_def basics Let_def csid_sendAudio)

lemma csid_playbackTimeout:
  "currentSynthesisId (playbackTimeout now sid s) = currentSynthesisId s"
  by (simp add: playbackTimeout_def basics)

lemma csid_foldl_playbackTimeout:
  "currentSynthesisId (foldl (\<lambda>s' t. playbackTimeout now (snd t) s') s ts) = currentSynthesisId s"
  by (induction ts arbitrary: s) (simp_all add: csid_playbackTimeout)

lemma csid_runTimers: "currentSynthesisId (runTimers now s) = currentSynthesisId s"
  by (simp add: runTimers_def csid_foldl_playbackTimeout)

lemma csid_saveRecording: "currentSynthesisId (saveRecording w s) = currentSynthesisId s"
  by (simp add: saveRecording_def basics Let_def)

lemma csid_end_session: "currentSynthesisId (end_session w now r s) = currentSynthesisId s"
  by (simp add: end_session_def closeSocket_def basics Let_def csid_saveRecording)

lemma csid_processUserSpeech: "currentSynthesisId (processUserSpeech now s) = currentSynthesisId s"
  by (simp add: processUserSpeech_def basics Let_def)

lemma csid_generateResponse: "currentSynthesisId (generateResponse now s) = currentSynthesisId s"
  by (simp add: generateResponse_def basics)

lemma csid_handleToolCall:
  "currentSynthesisId (handleToolCall w now tc s) = currentSynthesisId s"
  by (simp add: handleToolCall_def basics Let_def csid_end_session)

lemma csid_foldl_handleToolCall:
  "currentSynthesisId (foldl (\<lambda>s' tc. handleToolCall w now tc s') s tcs) = currentSynthesisId s"
  by (induction tcs arbitrary: s) (simp_all add: csid_handleToolCall)

lemma csid_generateResponse_resume:
  "currentSynthesisId s \<le> currentSynthesisId (generateResponse_resume w now t0 outcome s) \<and>
   currentSynthesisId (generateResponse_resume w now t0 outcome s) \<le> Suc (currentSynthesisId s)"
  by (cases outcome)
     (simp_all add: generateResponse_resume_def basics Let_def csid_generateResponse
        csid_foldl_handleToolCall csid_synthesizeAndPlay)

lemma csid_processUserSpeech_resume:
  "currentSynthesisId (processUserSpeech_resume now t0 outcome s) = currentSynthesisId s"
  by (cases outcome)
     (simp_all add: processUserSpeech_resume_def basics Let_def csid_generateResponse)

lemma csid_handleAudioData:
  "currentSynthesisId s \<le> currentSynthesisId (snd (handleAudioData now frame s)) \<and>
   currentSynthesisId (snd (handleAudioData now frame s)) \<le> Suc (currentSynthesisId s)"
  by (cases "detectVoiceActivity frame")
     (simp_all add: handleAudioData_def basics Let_def csid_handleInterrupt csid_processUserSpeech)

lemma csid_handleControlMessage:
  "currentSynthesisId s \<le> currentSynthesisId (snd (handleControlMessage w now m s)) \<and>
   currentSynthesisId (snd (handleControlMessage w now m s)) \<le> Suc (currentSynthesisId s)"
  by (simp add: handleControlMessage_def csid_end_session csid_handleInterrupt)

lemma csid_caught: "currentSynthesisId (caught r) = currentSynthesisId (snd r)"
  by (cases "fst r") (simp_all add: caught_def basics)

lemma csid_onMessage:
  "currentSynthesisId s \<le> currentSynthesisId (onMessage w now d s) \<and>
   currentSynthesisId (onMessage w now d s) \<le> Suc (currentSynthesisId s)"
  by (cases d)
     (simp_all add: onMessage_def csid_caught csid_handleAudioData csid_handleControlMessage
        split: option.split)

lemma csid_onClose: "currentSynthesisId (onClose w now s) = currentSynthesisId s"
  by (simp add: onClose_def Let_def csid_end_session)

lemma csid_start:
  "currentSynthesisId s \<le> currentSynthesisId (start now s) \<and>
   currentSynthesisId (start now s) \<le> Suc (currentSynthesisId s)"
  by (simp add: start_def basics Let_def csid_synthesizeAndPlay split: option.split)

lemma csid_step:
  "currentSynthesisId s \<le> currentSynthesisId (step w now i s) \<and>
   currentSynthesisId (step w now i s) \<le> Suc (currentSynthesisId s)"
  by (cases i)
     (simp_all add: csid_start csid_onMessage csid_onClose onError_def basics
        csid_processUserSpeech_resume csid_generateResponse_resume
        csid_synthesizeAndPlay_resume csid_runTimers csid_end_session)

lemma csid_run: "currentSynthesisId s \<le> currentSynthesisId (run w evs s)"
proof (induction evs arbitrary: s)
  case Nil
  show ?case by simp
next
  case (Cons e evs)
  have "currentSynthesisId s \<le> currentSynthesisId (step w (fst e) (snd e) s)"
    using csid_step by blast
  also have "\<dots> \<le> currentSynthesisId (run w evs (step w (fst e) (snd e) s))"
    by (rule Cons.IH)
  finally show ?case by simp
qed

lemmas evals = basics newSession_def newToolExecutor_def start_def synthesizeAndPlay_def
  synthesizeAndPlay_resume_def handleInterrupt_def handleAudioData_def onMessage_def caught_def
  detectVoiceActivity_def vadLoop.simps readInt16LE_def int16_def Let_def greeter_def quietWorld_def
  sendAudio_def playbackTimeout_def runTimers_def processUserSpeech_def silenceTimeout_def
  processUserSpeech_resume_def generateResponse_def generateResponse_resume_def
  getToolDefinitions_def end_session_def saveRecording_def closeSocket_def onClose_def
  handleControlMessage_def handleToolCall_def emitted_def userPath_def assistantPath_def

lemma stale_audio_discarded:
  "state s \<noteq> Speaking \<or> currentSynthesisId s \<noteq> sid \<Longrightarrow>
   synthesizeAndPlay_resume now sid t0 (Audio a) s = s"
  by (auto simp add: synthesizeAndPlay_resume_def)

lemma stale_outcome_no_audio:
  "state s \<noteq> Speaking \<or> currentSynthesisId s \<noteq> sid \<Longrightarrow>
   filter isAudio (effects (synthesizeAndPlay_resume now sid t0 outcome s)) =
   filter isAudio (effects s)"
  by (cases outcome) (auto simp add: synthesizeAndPlay_resume_def basics Let_def)

text \<open>
  Claim C1. For every session, \<open>currentSynthesisId\<close> never decreases, whatever happens to
  the session: every step leaves it or adds one, so it never decreases along a run. It is
  \<open>handleInterrupt\<close> (when the session is speaking) and \<open>synthesizeAndPlay\<close> that add one;
  the other operations leave it as it is. When a synthesis comes back and the state is no
  longer \<open>speaking\<close>, or the counter is no longer the one the synthesis has captured, its
  audio is discarded: the session is left unchanged and no binary frame is sent, also when
  the provider has thrown. A synthesis that has been superseded stays superseded along
  every later run, so its audio is never sent.
\<close>

theorem C1_synthesis_id:
  "currentSynthesisId s \<le> currentSynthesisId (step w now i s)
   \<and> currentSynthesisId (step w now i s) \<le> Suc (currentSynthesisId s)
   \<and> currentSynthesisId s \<le> currentSynthesisId (run w evs s)
   \<and> currentSynthesisId (handleInterrupt now s) =
       (if state s = Speaking then Suc (currentSynthesisId s) else currentSynthesisId s)
   \<and> currentSynthesisId (synthesizeAndPlay now utterance l s) = Suc (currentSynthesisId s)
   \<and> currentSynthesisId (synthesizeAndPlay_resume now sid t0 outcome s) = currentSynthesisId s
   \<and> currentSynthesisId (sendAudio a s) = currentSynthesisId s
   \<and> currentSynthesisId (playbackTimeout now sid s) = currentSynthesisId s
   \<and> currentSynthesisId (runTimers now s) = currentSynthesisId s
   \<and> currentSynthesisId (saveRecording w s) = currentSynthesisId s
   \<and> currentSynthesisId (end_session w now r s) = currentSynthesisId s
   \<and> currentSynthesisId (onClose w now s) = currentSynthesisId s
   \<and> currentSynthesisId (processUserSpeech now s) = currentSynthesisId s
   \<and> currentSynthesisId (processUserSpeech_resume now t0 stt s) = currentSynthesisId s
   \<and> currentSynthesisId (generateResponse now s) = currentSynthesisId s
   \<and> currentSynthesisId (handleToolCall w now tc s) = currentSynthesisId s
   \<and> (state s \<noteq> Speaking \<or> currentSynthesisId s \<noteq> sid \<longrightarrow>
        synthesizeAndPlay_resume now sid t0 (Audio a) s = s
        \<and> filter isAudio (effects (synthesizeAndPlay_resume now sid t0 outcome s)) =
            filter isAudio (effects s))
   \<and> (sid < currentSynthesisId s \<longrightarrow>
        synthesizeAndPlay_resume now sid t0 (Audio a) (run w evs s) = run w evs s)"
proof -
  have later: "sid < currentSynthesisId s \<Longrightarrow>
      synthesizeAndPlay_resume now sid t0 (Audio a) (run w evs s) = run w evs s"
  proof -
    assume "sid < currentSynthesisId s"
    with csid_run [of s w evs] have "currentSynthesisId (run w evs s) \<noteq> sid" by simp
    then show ?thesis by (simp add: stale_audio_discarded)
  qed
  show ?thesis
    using csid_step [of s w now i] csid_run [of s w evs] later
    by (simp add: csid_handleInterrupt csid_synthesizeAndPlay csid_synthesizeAndPlay_resume
        csid_sendAudio csid_playbackTimeout csid_runTimers csid_saveRecording
        csid_end_session csid_onClose csid_processUserSpeech
        csid_processUserSpeech_resume csid_generateResponse csid_handleToolCall
        stale_audio_discarded stale_outcome_no_audio)
qed

theorem C1_synthesis_id_witness:
  "state (run quietWorld [(0, Start), (100, SocketMessage (Binary [0, 16]))]
            (newSession ''c1'' greeter [])) = Listening
   \<and> currentSynthesisId (run quietWorld [(0, Start), (100, SocketMessage (Binary [0, 16]))]
            (newSession ''c1'' greeter [])) = 2
   \<and> synthesizeAndPlay_resume 200 1 0 (Audio [1, 2, 3, 4])
         (run quietWorld [(0, Start), (100, SocketMessage (Binary [0, 16]))]
            (newSession ''c1'' greeter []))
       = run quietWorld [(0, Start), (100, SocketMessage (Binary [0, 16]))]
            (newSession ''c1'' greeter [])
   \<and> filter isAudio (effects (synthesizeAndPlay_resume 200 1 0 (Audio [1, 2, 3, 4])
         (run quietWorld [(0, Start), (100, SocketMessage (Binary [0, 16]))]
            (newSession ''c1'' greeter [])))) = []
   \<and> synthesizeAndPlay_resume 1500 1 0 (Audio [1, 2, 3, 4])
         (run quietWorld [(150, SocketMessage (Binary [0, 0])), (1200, SocketMessage (Binary [0, 0]))]
            (run quietWorld [(0, Start), (100, SocketMessage (Binary [0, 16]))]
               (newSession ''c1'' greeter [])))
       = run quietWorld [(150, SocketMessage (Binary [0, 0])), (1200, SocketMessage (Binary [0, 0]))]
            (run quietWorld [(0, Start), (100, SocketMessage (Binary [0, 16]))]
               (newSession ''c1'' greeter []))"
proof -
  define s1 where "s1 = run quietWorld [(0, Start), (100, SocketMessage (Binary [0, 16]))]
              (newSession ''c1'' greeter [])"
  define later :: "(int \<times> input) list"
    where "later = [(150, SocketMessage (Binary [0, 0])), (1200, SocketMessage (Binary [0, 0]))]"
  have st: "state s1 = Listening" and id: "currentSynthesisId s1 = 2"
    and no: "filter isAudio (effects s1) = []"
    unfolding s1_def by code_simp+
  from st have stale: "state s1 \<noteq> Speaking \<or> currentSynthesisId s1 \<noteq> 1" by simp
  from id have superseded: "1 < currentSynthesisId s1" by simp
  note inst = C1_synthesis_id [where s = s1 and sid = 1 and ?t0.0 = 0 and a = "[1, 2, 3, 4]"
      and outcome = "Audio [1, 2, 3, 4]" and w = quietWorld and evs = later]
  from inst [where now = 200] stale
  have a: "synthesizeAndPlay_resume 200 1 0 (Audio [1, 2, 3, 4]) s1 = s1" by blast
  from inst [where now = 1500] superseded
  have b: "synthesizeAndPlay_resume 1500 1 0 (Audio [1, 2, 3, 4]) (run quietWorld later s1) =
      run quietWorld later s1" by blast
  from st id no a b show ?thesis
    unfolding s1_def later_def by simp
qed

section \<open>Odd frames\<close>

lemma onMessage_odd_frame:
  "odd (length frame) \<Longrightarrow> \<not> isEnded s \<Longrightarrow>
   onMessage w now (Binary frame) s =
     emit (LogError ''Error handling message'')
       (s\<lparr>userAudioChunks := userAudioChunks s @ [frame],
          audioBuffer := (if state s = Speaking \<and> interruptionEnabled (assistant s)
                          then audioBuffer s else audioBuffer s @ [frame])\<rparr>)"
  by (simp add: onMessage_def caught_def handleAudioData_def Let_def detectVoiceActivity_odd)

lemma onMessage_ended: "isEnded s \<Longrightarrow> onMessage w now (Binary frame) s = s"
  by (simp add: onMessage_def caught_def handleAudioData_def)

text \<open>
  Claim C10, as the code has it. \<open>detectVoiceActivity\<close> is total only on frames of even
  byte length: on such a frame it returns true exactly when the mean of the absolute
  values of the little-endian 16-bit samples exceeds 200. On a frame of odd byte length the
  read of the last sample, at index \<open>length - 1\<close>, throws a range error. The error
  propagates to the \<open>catch\<close> of the socket message handler, which logs it. The frame is
  not dropped by this: \<open>handleAudioData\<close> has appended it to \<open>userAudioChunks\<close> before the
  detector runs and, unless the session is speaking with interruption enabled, to
  \<open>audioBuffer\<close> as well, and both keep it; what is skipped is the voice-activity
  processing of the frame (no event, no change of \<open>isSpeaking\<close>, \<open>silenceStart\<close> or
  \<open>state\<close>). A session that has ended ignores the frame before the detector is reached.
\<close>

theorem C10_detectVoiceActivity:
  "(even (length frame) \<longrightarrow> detectVoiceActivity frame = Inr (200 < meanAbs (samples frame)))
   \<and> (odd (length frame) \<longrightarrow>
        detectVoiceActivity frame = Inl RangeError
        \<and> (\<not> isEnded s \<longrightarrow>
             onMessage w now (Binary frame) s =
               emit (LogError ''Error handling message'')
                 (s\<lparr>userAudioChunks := userAudioChunks s @ [frame],
                    audioBuffer := (if state s = Speaking \<and> interruptionEnabled (assistant s)
                                    then audioBuffer s else audioBuffer s @ [frame])\<rparr>))
        \<and> (isEnded s \<longrightarrow> onMessage w now (Binary frame) s = s))"
  using detectVoiceActivity_even [of frame] detectVoiceActivity_odd [of frame]
    onMessage_odd_frame [of frame s w now] onMessage_ended [of s w now frame]
  by blast

theorem C10_detectVoiceActivity_witness:
  "detectVoiceActivity [0, 16] = Inr True
   \<and> detectVoiceActivity [7] = Inl RangeError
   \<and> onMessage quietWorld 150 (Binary [7]) (start 0 (newSession ''c1'' listener [])) =
       emit (LogError ''Error handling message'')
         ((start 0 (newSession ''c1'' listener []))\<lparr>userAudioChunks := [[7]], audioBuffer := [[7]]\<rparr>)
   \<and> onMessage quietWorld 150 (Binary [7])
         (end_session quietWorld 100 ''api-request'' (start 0 (newSession ''c1'' listener []))) =
       end_session quietWorld 100 ''api-request'' (start 0 (newSession ''c1'' listener []))"
proof -
  define s0 where "s0 = start 0 (newSession ''c1'' listener [])"
  define s1 where "s1 = end_session quietWorld 100 ''api-request'' s0"
  have m: "200 < meanAbs (samples [0, 16])"
    by (simp add: meanAbs_def int16_def)
  have live: "\<not> isEnded s0" and st: "state s0 = Listening"
    and bufs: "userAudioChunks s0 = []" "audioBuffer s0 = []"
    unfolding s0_def by code_simp+
  have over: "isEnded s1"
    unfolding s1_def s0_def by code_simp
  from C10_detectVoiceActivity [where frame = "[0, 16]"] m
  have a: "detectVoiceActivity [0, 16] = Inr True" by simp
  from C10_detectVoiceActivity [where frame = "[7]" and s = s0 and w = quietWorld and now = 150]
    live st bufs
  have b: "detectVoiceActivity [7] = Inl RangeError"
    and c: "onMessage quietWorld 150 (Binary [7]) s0 =
       emit (LogError ''Error handling message'')
         (s0\<lparr>userAudioChunks := [[7]], audioBuffer := [[7]]\<rparr>)"
    by simp_all
  from C10_detectVoiceActivity [where frame = "[7]" and s = s1 and w = quietWorld and now = 150]
    over
  have d: "onMessage quietWorld 150 (Binary [7]) s1 = s1" by simp
  from a b c d show ?thesis
    unfolding s1_def s0_def by simp
qed

text \<open>
  The claim's last clause fails: here a one-byte frame arrives between a voiced frame and
  two silent ones. The detector throws on it, yet it stays in both buffers, and when the
  silence ends the turn its byte is part of the audio sent to the transcriber.
\<close>

theorem C10_frame_dropped_counterexample:
  "detectVoiceActivity [7] = Inl RangeError
   \<and> audioBuffer
        (run quietWorld [(0, Start), (100, SocketMessage (Binary [0, 16])),
                         (150, SocketMessage (Binary [7]))]
           (newSession ''c1'' listener [])) = [[0, 16], [7]]
   \<and> userAudioChunks
        (run quietWorld [(0, Start), (100, SocketMessage (Binary [0, 16])),
                         (150, SocketMessage (Binary [7]))]
           (newSession ''c1'' listener [])) = [[0, 16], [7]]
   \<and> last (effects
        (run quietWorld [(0, Start), (100, SocketMessage (Binary [0, 16])),
                         (150, SocketMessage (Binary [7])),
                         (200, SocketMessage (Binary [0, 0])),
                         (1100, SocketMessage (Binary [0, 0]))]
           (newSession ''c1'' listener []))) = SttTranscribe [0, 16, 7, 0, 0, 0, 0] 1100"
  by (simp add: evals listener_def)

section \<open>Endpointing\<close>

lemma handleAudioData_fires:
  "\<not> isEnded s \<Longrightarrow> \<not> (state s = Speaking \<and> interruptionEnabled (assistant s)) \<Longrightarrow>
   detectVoiceActivity frame = Inr False \<Longrightarrow> isSpeaking s \<Longrightarrow>
   now - (if silenceStart s = 0 then now else silenceStart s) > silenceTimeout (assistant s) \<Longrightarrow>
   emitted s (snd (handleAudioData now frame s)) =
     [SocketSend ''speech.ended'' (JObj []) now, SocketSend ''assistant.thinking'' (JObj []) now,
      SttTranscribe (concat (audioBuffer s @ [frame])) now]
   \<and> isSpeaking (snd (handleAudioData now frame s)) = False
   \<and> state (snd (handleAudioData now frame s)) = Thinking"
  by (cases "silenceStart s = 0")
     (simp_all add: handleAudioData_def Let_def processUserSpeech_def basics emitted_def)

lemma handleAudioData_quiet:
  "\<not> (\<not> isEnded s \<and> \<not> (state s = Speaking \<and> interruptionEnabled (assistant s)) \<and>
      detectVoiceActivity frame = Inr False \<and> isSpeaking s \<and>
      now - (if silenceStart s = 0 then now else silenceStart s) > silenceTimeout (assistant s)) \<Longrightarrow>
   filter (isEvent ''speech.ended'') (emitted s (snd (handleAudioData now frame s))) = []
   \<and> filter isTranscribe (emitted s (snd (handleAudioData now frame s))) = []"
  apply (cases "detectVoiceActivity frame")
   apply (simp add: handleAudioData_def Let_def basics emitted_def)
  subgoal for hasVoice
    apply (cases hasVoice)
     apply (simp_all add: handleAudioData_def Let_def basics emitted_def handleInterrupt_def)
    apply (auto simp add: processUserSpeech_def basics Let_def)
    done
  done

text \<open>
  Claim C4. The silence timeout that \<open>handleAudioData\<close> uses is
  \<open>min(assistant.silenceTimeoutMs, 1200)\<close>: a configured value above 1200 ms counts as
  1200 ms, a value of at most 1200 ms counts as it is. A frame makes the session send
  \<open>speech.ended\<close> and start \<open>processUserSpeech\<close> (which sends \<open>assistant.thinking\<close> and hands
  the buffered audio to the transcriber) exactly when the session has not ended, is not in
  the interruption branch, the frame is silent, \<open>isSpeaking\<close> is true and the silence
  measured from \<open>silenceStart\<close> (set to now if it was 0) exceeds that timeout; in every other
  case the frame causes neither.
\<close>

theorem C4_silence_timeout:
  "silenceTimeout a = min (silenceTimeoutMs a) 1200
   \<and> (1200 < silenceTimeoutMs a \<longrightarrow> silenceTimeout a = 1200)
   \<and> (silenceTimeoutMs a \<le> 1200 \<longrightarrow> silenceTimeout a = silenceTimeoutMs a)
   \<and> (\<not> isEnded s \<and> \<not> (state s = Speaking \<and> interruptionEnabled (assistant s)) \<and>
        detectVoiceActivity frame = Inr False \<and> isSpeaking s \<and>
        now - (if silenceStart s = 0 then now else silenceStart s) > silenceTimeout (assistant s)
        \<longrightarrow>
        emitted s (snd (handleAudioData now frame s)) =
          [SocketSend ''speech.ended'' (JObj []) now,
           SocketSend ''assistant.thinking'' (JObj []) now,
           SttTranscribe (concat (audioBuffer s @ [frame])) now]
        \<and> isSpeaking (snd (handleAudioData now frame s)) = False
        \<and> state (snd (handleAudioData now frame s)) = Thinking)
   \<and> (\<not> (\<not> isEnded s \<and> \<not> (state s = Speaking \<and> interruptionEnabled (assistant s)) \<and>
           detectVoiceActivity frame = Inr False \<and> isSpeaking s \<and>
           now - (if silenceStart s = 0 then now else silenceStart s) > silenceTimeout (assistant s))
        \<longrightarrow>
        filter (isEvent ''speech.ended'') (emitted s (snd (handleAudioData now frame s))) = []
        \<and> filter isTranscribe (emitted s (snd (handleAudioData now frame s))) = [])"
proof -
  have cap: "silenceTimeout a = min (silenceTimeoutMs a) 1200"
    and above: "1200 < silenceTimeoutMs a \<longrightarrow> silenceTimeout a = 1200"
    and below: "silenceTimeoutMs a \<le> 1200 \<longrightarrow> silenceTimeout a = silenceTimeoutMs a"
    by (simp_all add: silenceTimeout_def)
  show ?thesis
    using cap above below
      handleAudioData_fires [of s frame now] handleAudioData_quiet [of s frame now]
    by blast
qed

theorem C4_silence_timeout_witness:
  "silenceTimeout listener = 800
   \<and> silenceTimeout patient = 1200
   \<and> emitted
        (run quietWorld [(0, Start), (100, SocketMessage (Binary [0, 16])),
                         (200, SocketMessage (Binary [0, 0]))] (newSession ''c1'' listener []))
        (snd (handleAudioData 1100 [0, 0]
          (run quietWorld [(0, Start), (100, SocketMessage (Binary [0, 16])),
                           (200, SocketMessage (Binary [0, 0]))] (newSession ''c1'' listener [])))) =
        [SocketSend ''speech.ended'' (JObj []) 1100,
         SocketSend ''assistant.thinking'' (JObj []) 1100,
         SttTranscribe [0, 16, 0, 0, 0, 0] 1100]
   \<and> filter (isEvent ''speech.ended'') (emitted
        (run quietWorld [(0, Start), (100, SocketMessage (Binary [0, 16])),
                         (200, SocketMessage (Binary [0, 0]))] (newSession ''c1'' patient []))
        (snd (handleAudioData 1100 [0, 0]
          (run quietWorld [(0, Start), (100, SocketMessage (Binary [0, 16])),
                           (200, SocketMessage (Binary [0, 0]))] (newSession ''c1'' patient []))))) = []
   \<and> filter (isEvent ''speech.ended'') (emitted
        (run quietWorld [(0, Start), (100, SocketMessage (Binary [0, 16])),
                         (200, SocketMessage (Binary [0, 0]))] (newSession ''c1'' patient []))
        (snd (handleAudioData 1401 [0, 0]
          (run quietWorld [(0, Start), (100, SocketMessage (Binary [0, 16])),
                           (200, SocketMessage (Binary [0, 0]))] (newSession ''c1'' patient []))))) =
        [SocketSend ''speech.ended'' (JObj []) 1401]"
proof -
  define sl where "sl = run quietWorld [(0, Start), (100, SocketMessage (Binary [0, 16])),
                         (200, SocketMessage (Binary [0, 0]))] (newSession ''c1'' listener [])"
  define sp where "sp = run quietWorld [(0, Start), (100, SocketMessage (Binary [0, 16])),
                         (200, SocketMessage (Binary [0, 0]))] (newSession ''c1'' patient [])"
  have quiet: "detectVoiceActivity [0, 0] = Inr False"
    by (simp add: evals)
  have l: "\<not> isEnded sl" "state sl = Listening" "isSpeaking sl" "silenceStart sl = 200"
    "assistant sl = listener" "audioBuffer sl = [[0, 16], [0, 0]]"
    by (simp_all add: sl_def evals listener_def)
  have p: "\<not> isEnded sp" "state sp = Listening" "isSpeaking sp" "silenceStart sp = 200"
    "assistant sp = patient" "audioBuffer sp = [[0, 16], [0, 0]]"
    by (simp_all add: sp_def evals patient_def)
  have t: "silenceTimeout listener = 800" "silenceTimeout patient = 1200"
    using C4_silence_timeout [of listener] C4_silence_timeout [of patient]
    by (simp_all add: listener_def patient_def greeter_def)
  have a: "emitted sl (snd (handleAudioData 1100 [0, 0] sl)) =
        [SocketSend ''speech.ended'' (JObj []) 1100,
         SocketSend ''assistant.thinking'' (JObj []) 1100,
         SttTranscribe [0, 16, 0, 0, 0, 0] 1100]"
    using C4_silence_timeout [of listener sl "[0, 0]" 1100] quiet l t by simp
  have b: "filter (isEvent ''speech.ended'') (emitted sp (snd (handleAudioData 1100 [0, 0] sp))) = []"
    using C4_silence_timeout [of patient sp "[0, 0]" 1100] quiet p t by simp
  have c: "filter (isEvent ''speech.ended'') (emitted sp (snd (handleAudioData 1401 [0, 0] sp))) =
        [SocketSend ''speech.ended'' (JObj []) 1401]"
    using C4_silence_timeout [of patient sp "[0, 0]" 1401] quiet p t by simp
  from t a b c show ?thesis unfolding sl_def sp_def by blast
qed

section \<open>Ending a call\<close>

lemma end_session_ended: "isEnded s \<Longrightarrow> end_session w now r s = s"
  by (simp add: end_session_def)

lemma isEnded_saveRecording: "isEnded (saveRecording w s) = isEnded s"
  by (simp add: saveRecording_def basics Let_def)

lemma isEnded_end_session: "isEnded (end_session w now r s)"
  by (simp add: end_session_def closeSocket_def basics Let_def isEnded_saveRecording)

lemma foldl_end_session_ended:
  "isEnded s \<Longrightarrow> foldl (\<lambda>s' c. end_session w (fst c) (snd c) s') s calls = s"
  by (induction calls) (simp_all add: end_session_ended)

lemma foldl_end_session_first:
  "foldl (\<lambda>s' c. end_session w (fst c) (snd c) s') s (c # cs) = end_session w (fst c) (snd c) s"
  by (simp add: foldl_end_session_ended isEnded_end_session)

lemma path_simps:
  "userPath (s\<lparr>effects := es\<rparr>) = userPath s"
  "assistantPath (s\<lparr>effects := es\<rparr>) = assistantPath s"
  "userPath (s\<lparr>isEnded := b\<rparr>) = userPath s"
  "assistantPath (s\<lparr>isEnded := b\<rparr>) = assistantPath s"
  by (simp_all add: userPath_def assistantPath_def)

text \<open>The effects of \<open>saveRecording\<close> depend on the recorded chunks and on the call id only.\<close>

lemma effects_saveRecording:
  "effects (saveRecording w s) = effects s @ emitted s (saveRecording w s)"
  by (simp add: saveRecording_def basics Let_def emitted_def)

lemma paths_differ: "userPath s \<noteq> assistantPath s"
  by (simp add: userPath_def assistantPath_def)

lemma emitted_saveRecording:
  "emitted s (saveRecording w s) =
     (if userAudioChunks s \<noteq> [] \<and> \<not> writeFileOk w (userPath s) then
        [LogError ''Failed to save recording'']
      else
        (if userAudioChunks s \<noteq> []
         then [WriteFile (userPath s) (concat (userAudioChunks s))] else []) @
        (if assistantAudioChunks s \<noteq> [] \<and> \<not> writeFileOk w (assistantPath s) then
           [LogError ''Failed to save recording'']
         else
           (if assistantAudioChunks s \<noteq> []
            then [WriteFile (assistantPath s) (concat (assistantAudioChunks s))] else []) @
           [CallUpdate (callId s)
              [(''recordingUrl'', JStr (''/recordings/'' @ callId s @ ''-user.pcm'')),
               (''stereoRecordingUrl'',
                  JStr (''/recordings/'' @ callId s @ ''-assistant.pcm''))]]))"
  by (simp add: saveRecording_def basics Let_def emitted_def path_simps)

lemma saveRecording_counts:
  "filter (isEvent t) (emitted s (saveRecording w s)) = []"
  "filter (\<lambda>e. statusWritten e \<noteq> JUndefined) (emitted s (saveRecording w s)) = []"
  "length (filter isUrlUpdate (emitted s (saveRecording w s))) \<le> 1"
  "length (filter (isWriteTo p) (emitted s (saveRecording w s))) \<le> 1"
  using paths_differ [of s]
  by (auto simp add: emitted_saveRecording)

lemma saveRecording_writes:
  "writeFileOk w (userPath s) \<Longrightarrow> writeFileOk w (assistantPath s) \<Longrightarrow>
   emitted s (saveRecording w s) =
     (if userAudioChunks s \<noteq> [] then [WriteFile (userPath s) (concat (userAudioChunks s))] else []) @
     (if assistantAudioChunks s \<noteq> []
      then [WriteFile (assistantPath s) (concat (assistantAudioChunks s))] else []) @
     [CallUpdate (callId s)
        [(''recordingUrl'', JStr (''/recordings/'' @ callId s @ ''-user.pcm'')),
         (''stereoRecordingUrl'', JStr (''/recordings/'' @ callId s @ ''-assistant.pcm''))]]"
  by (simp add: saveRecording_def basics Let_def emitted_def path_simps)


lemma emit_fields:
  "effects (emit e s) = effects s @ [e]"
  "onSessionEnd (emit e s) = onSessionEnd s"
  "userAudioChunks (emit e s) = userAudioChunks s"
  "assistantAudioChunks (emit e s) = assistantAudioChunks s"
  "callId (emit e s) = callId s"
  "startTime (emit e s) = startTime s"
  by (simp_all add: emit_def)

lemma closeSocket_fields:
  "effects (closeSocket s) = effects s @ [SocketClose]"
  "onSessionEnd (closeSocket s) = onSessionEnd s"
  by (simp_all add: closeSocket_def emit_def)

lemma saveRecording_fields:
  "onSessionEnd (saveRecording w s) = onSessionEnd s"
  by (simp add: saveRecording_def basics Let_def)

lemma emitted_saveRecording_same:
  "userAudioChunks s' = userAudioChunks s \<Longrightarrow>
   assistantAudioChunks s' = assistantAudioChunks s \<Longrightarrow> callId s' = callId s \<Longrightarrow>
   emitted s' (saveRecording w s') = emitted s (saveRecording w s)"
  by (simp add: saveRecording_def basics Let_def emitted_def userPath_def assistantPath_def)

lemma emitted_end_session:
  "\<not> isEnded s \<Longrightarrow>
   emitted s (end_session w now r s) =
     [CallUpdate (callId s)
        [(''status'', JStr ''completed''), (''endedReason'', JStr r),
         (''endedAt'', JNum (of_int now)),
         (''durationSeconds'', JNum (of_int ((now - startTime s) div 1000))),
         (''costCents'', getProp (calculateCosts w ((now - startTime s) div 1000)) ''total''),
         (''costBreakdown'', calculateCosts w ((now - startTime s) div 1000))],
      SocketSend ''call.ended''
        (JObj [(''reason'', JStr r),
               (''duration'', JNum (of_int ((now - startTime s) div 1000))),
               (''costs'', calculateCosts w ((now - startTime s) div 1000))]) now]
     @ emitted s (saveRecording w s)
     @ [SocketClose, OnEnd]
     @ (if onSessionEnd s then [OnSessionEnd] else [])"
proof -
  assume live: "\<not> isEnded s"
  let ?d = "(now - startTime s) div 1000"
  let ?update = "CallUpdate (callId s)
        [(''status'', JStr ''completed''), (''endedReason'', JStr r),
         (''endedAt'', JNum (of_int now)),
         (''durationSeconds'', JNum (of_int ?d)),
         (''costCents'', getProp (calculateCosts w ?d) ''total''),
         (''costBreakdown'', calculateCosts w ?d)]"
  let ?event = "SocketSend ''call.ended''
        (JObj [(''reason'', JStr r), (''duration'', JNum (of_int ?d)),
               (''costs'', calculateCosts w ?d)]) now"
  let ?s3 = "emit ?event (emit ?update (s\<lparr>isEnded := True\<rparr>))"
  let ?s6 = "emit OnEnd (closeSocket (saveRecording w ?s3))"
  from live have unfolded:
    "end_session w now r s = (if onSessionEnd ?s6 then emit OnSessionEnd ?s6 else ?s6)"
    by (simp add: end_session_def sendEvent_def Let_def)
  have rec: "emitted ?s3 (saveRecording w ?s3) = emitted s (saveRecording w s)"
    by (rule emitted_saveRecording_same) (simp_all add: emit_fields)
  have e3: "effects ?s3 = effects s @ [?update, ?event]"
    by (simp add: emit_fields)
  have e6: "effects ?s6 = effects s @ [?update, ?event] @ emitted s (saveRecording w s)
              @ [SocketClose, OnEnd]"
    using effects_saveRecording [where w = w and s = ?s3] rec e3
    by (simp add: emit_fields closeSocket_fields)
  have o6: "onSessionEnd ?s6 = onSessionEnd s"
    by (simp add: emit_fields closeSocket_fields saveRecording_fields)
  have f1: "effects (emit OnSessionEnd ?s6) = effects ?s6 @ [OnSessionEnd]"
    by (rule emit_fields(1))
  have em6: "emitted s ?s6 =
      [?update, ?event] @ emitted s (saveRecording w s) @ [SocketClose, OnEnd]"
    unfolding emitted_def e6 by simp
  have em7: "emitted s (emit OnSessionEnd ?s6) =
      [?update, ?event] @ emitted s (saveRecording w s) @ [SocketClose, OnEnd] @ [OnSessionEnd]"
    unfolding emitted_def f1 e6 by simp
  show ?thesis
  proof (cases "onSessionEnd s")
    case True
    with unfolded o6 have "end_session w now r s = emit OnSessionEnd ?s6"
      by (simp only: if_True)
    with em7 True show ?thesis by (simp only: if_True)
  next
    case False
    with unfolded o6 have "end_session w now r s = ?s6"
      by (simp only: if_False)
    with em6 False show ?thesis by (simp only: if_False append_Nil2)
  qed
qed


text \<open>
  Claim C3. \<open>end(reason)\<close> is idempotent. On a session that has not ended, any number
  \<open>N \<ge> 1\<close> of invocations, with any reasons, does what the first invocation alone does:
  together they send exactly one \<open>call.ended\<close> event, write the status of the Call row
  exactly once (\<open>completed\<close>, with the reason, the duration and the cost of the first
  invocation) and flush the recordings exactly once: what they add to the effects is that
  write, that event, the effects of one run of \<open>saveRecording\<close> (each recording file is
  written at most once and the recording URLs at most once, and once when the files can be
  written), the closing of the socket and the callbacks. On a session that has ended, no
  invocation has any effect. (Writes to the database are taken to complete.)
\<close>

theorem C3_end_idempotent:
  "(\<not> isEnded s \<longrightarrow>
      endRepeatedly w s (c # cs) = end_session w (fst c) (snd c) s
      \<and> length (filter (isEvent ''call.ended'') (emitted s (endRepeatedly w s (c # cs)))) = 1
      \<and> length (filter (\<lambda>e. statusWritten e \<noteq> JUndefined)
            (emitted s (endRepeatedly w s (c # cs)))) = 1
      \<and> emitted s (endRepeatedly w s (c # cs)) =
          [CallUpdate (callId s)
             [(''status'', JStr ''completed''), (''endedReason'', JStr (snd c)),
              (''endedAt'', JNum (of_int (fst c))),
              (''durationSeconds'', JNum (of_int ((fst c - startTime s) div 1000))),
              (''costCents'',
                 getProp (calculateCosts w ((fst c - startTime s) div 1000)) ''total''),
              (''costBreakdown'', calculateCosts w ((fst c - startTime s) div 1000))],
           SocketSend ''call.ended''
             (JObj [(''reason'', JStr (snd c)),
                    (''duration'', JNum (of_int ((fst c - startTime s) div 1000))),
                    (''costs'', calculateCosts w ((fst c - startTime s) div 1000))]) (fst c)]
          @ emitted s (saveRecording w s)
          @ [SocketClose, OnEnd]
          @ (if onSessionEnd s then [OnSessionEnd] else [])
      \<and> length (filter isUrlUpdate (emitted s (endRepeatedly w s (c # cs)))) \<le> 1
      \<and> length (filter (isWriteTo p) (emitted s (endRepeatedly w s (c # cs)))) \<le> 1
      \<and> (writeFileOk w (userPath s) \<and> writeFileOk w (assistantPath s) \<longrightarrow>
           length (filter isUrlUpdate (emitted s (endRepeatedly w s (c # cs)))) = 1))
   \<and> (isEnded s \<longrightarrow> endRepeatedly w s calls = s)"
proof -
  have ended: "isEnded s \<longrightarrow> endRepeatedly w s calls = s"
    by (simp add: endRepeatedly_def foldl_end_session_ended)
  have first: "endRepeatedly w s (c # cs) = end_session w (fst c) (snd c) s"
    unfolding endRepeatedly_def by (rule foldl_end_session_first)
  have live: "\<not> isEnded s \<Longrightarrow> ?thesis"
  proof -
    assume l: "\<not> isEnded s"
    note em = emitted_end_session [OF l, of w "fst c" "snd c"]
    have n1: "length (filter (isEvent ''call.ended'') (emitted s (end_session w (fst c) (snd c) s))) = 1"
      unfolding em by (simp add: saveRecording_counts)
    have n2: "length (filter (\<lambda>e. statusWritten e \<noteq> JUndefined)
            (emitted s (end_session w (fst c) (snd c) s))) = 1"
      unfolding em by (simp add: saveRecording_counts)
    have n3: "length (filter isUrlUpdate (emitted s (end_session w (fst c) (snd c) s))) \<le> 1"
      unfolding em using saveRecording_counts(3) [of s w] by simp
    have n4: "length (filter (isWriteTo p) (emitted s (end_session w (fst c) (snd c) s))) \<le> 1"
      unfolding em using saveRecording_counts(4) [of p s w] by simp
    have n5: "writeFileOk w (userPath s) \<and> writeFileOk w (assistantPath s) \<longrightarrow>
           length (filter isUrlUpdate (emitted s (end_session w (fst c) (snd c) s))) = 1"
      unfolding em by (simp add: saveRecording_writes)
    from l ended first em n1 n2 n3 n4 n5 show ?thesis by simp
  qed
  show ?thesis
  proof (cases "isEnded s")
    case True
    with ended show ?thesis by simp
  next
    case False
    then show ?thesis by (rule live)
  qed
qed


theorem C3_end_idempotent_witness:
  "emitted
     (run quietWorld [(0, Start), (100, SocketMessage (Binary [0, 16]))]
        (newSession ''c1'' listener []))
     (endRepeatedly quietWorld
        (run quietWorld [(0, Start), (100, SocketMessage (Binary [0, 16]))]
           (newSession ''c1'' listener []))
        [(5000, ''client-request''), (5001, ''client-disconnect''), (5002, ''api-request'')]) =
     [CallUpdate ''c1''
        [(''status'', JStr ''completed''), (''endedReason'', JStr ''client-request''),
         (''endedAt'', JNum 5000), (''durationSeconds'', JNum 5),
         (''costCents'', JNum 0), (''costBreakdown'', JObj [(''total'', JNum 0)])],
      SocketSend ''call.ended''
        (JObj [(''reason'', JStr ''client-request''), (''duration'', JNum 5),
               (''costs'', JObj [(''total'', JNum 0)])]) 5000,
      WriteFile ''recordings/c1-user.pcm'' [0, 16],
      CallUpdate ''c1''
        [(''recordingUrl'', JStr ''/recordings/c1-user.pcm''),
         (''stereoRecordingUrl'', JStr ''/recordings/c1-assistant.pcm'')],
      SocketClose, OnEnd, OnSessionEnd]
   \<and> endRepeatedly quietWorld
        (end_session quietWorld 5000 ''client-request''
           (run quietWorld [(0, Start), (100, SocketMessage (Binary [0, 16]))]
              (newSession ''c1'' listener [])))
        [(5001, ''client-disconnect''), (5002, ''api-request'')] =
       end_session quietWorld 5000 ''client-request''
         (run quietWorld [(0, Start), (100, SocketMessage (Binary [0, 16]))]
            (newSession ''c1'' listener []))"
proof -
  define s0 where "s0 = run quietWorld [(0, Start), (100, SocketMessage (Binary [0, 16]))]
        (newSession ''c1'' listener [])"
  define s1 where "s1 = end_session quietWorld 5000 ''client-request'' s0"
  have live: "\<not> isEnded s0"
    unfolding s0_def by code_simp
  have over: "isEnded s1"
    unfolding s1_def s0_def by code_simp
  from C3_end_idempotent [where s = s0 and w = quietWorld and c = "(5000, ''client-request'')"
      and cs = "[(5001, ''client-disconnect''), (5002, ''api-request'')]"] live
  have "endRepeatedly quietWorld s0
          [(5000, ''client-request''), (5001, ''client-disconnect''), (5002, ''api-request'')] =
        end_session quietWorld 5000 ''client-request'' s0"
    by simp
  moreover have "emitted s0 (end_session quietWorld 5000 ''client-request'' s0) =
     [CallUpdate ''c1''
        [(''status'', JStr ''completed''), (''endedReason'', JStr ''client-request''),
         (''endedAt'', JNum 5000), (''durationSeconds'', JNum 5),
         (''costCents'', JNum 0), (''costBreakdown'', JObj [(''total'', JNum 0)])],
      SocketSend ''call.ended''
        (JObj [(''reason'', JStr ''client-request''), (''duration'', JNum 5),
               (''costs'', JObj [(''total'', JNum 0)])]) 5000,
      WriteFile ''recordings/c1-user.pcm'' [0, 16],
      CallUpdate ''c1''
        [(''recordingUrl'', JStr ''/recordings/c1-user.pcm''),
         (''stereoRecordingUrl'', JStr ''/recordings/c1-assistant.pcm'')],
      SocketClose, OnEnd, OnSessionEnd]"
    unfolding s0_def by code_simp
  moreover from C3_end_idempotent [where s = s1 and w = quietWorld
      and calls = "[(5001, ''client-disconnect''), (5002, ''api-request'')]"] over
  have "endRepeatedly quietWorld s1 [(5001, ''client-disconnect''), (5002, ''api-request'')] = s1"
    by simp
  ultimately show ?thesis
    unfolding s1_def s0_def by (simp only:)
qed

section \<open>The first message\<close>

lemma emitted_start_first_message:
  "firstMessage (assistant s) = Some f \<Longrightarrow> f \<noteq> [] \<Longrightarrow>
   emitted s (start now s) =
     [SocketSend ''call.started''
        (JObj [(''callId'', JStr (callId s)), (''assistant'', JStr (assistantName (assistant s)))]) now,
      CallUpdate (callId s) [(''status'', JStr ''active''), (''startedAt'', JNum (of_int now))],
      SocketSend ''assistant.message'' (JObj [(''text'', JStr f)]) now,
      CallMessageCreate
        [(''callId'', JStr (callId s)), (''role'', JStr ''assistant''), (''content'', JStr f),
         (''toolName'', JUndefined), (''toolArguments'', JUndefined), (''toolResult'', JUndefined),
         (''timestampMs'', JNum 0), (''sttLatencyMs'', JUndefined),
         (''llmLatencyMs'', JUndefined), (''ttsLatencyMs'', JUndefined)],
      TtsSynthesize f (Suc (currentSynthesisId s)) now]
   \<and> messages (start now s) = messages s @ [\<lparr>role = Assistant, content = f, toolCallId = None\<rparr>]
   \<and> state (start now s) = Speaking"
  by (simp add: start_def synthesizeAndPlay_def basics Let_def emitted_def)

lemma emitted_start_silent:
  "firstMessage (assistant s) = None \<or> firstMessage (assistant s) = Some [] \<Longrightarrow>
   emitted s (start now s) =
     [SocketSend ''call.started''
        (JObj [(''callId'', JStr (callId s)), (''assistant'', JStr (assistantName (assistant s)))]) now,
      CallUpdate (callId s) [(''status'', JStr ''active''), (''startedAt'', JNum (of_int now))]]
   \<and> messages (start now s) = messages s
   \<and> state (start now s) = Listening"
  by (cases "firstMessage (assistant s)") (auto simp add: start_def basics Let_def emitted_def)

lemma start_ignores_mode:
  "start now (s\<lparr>assistant := (assistant s)\<lparr>firstMessageMode := m\<rparr>\<rparr>) =
   (start now s)\<lparr>assistant := (assistant s)\<lparr>firstMessageMode := m\<rparr>\<rparr>"
proof (cases "firstMessage (assistant s)")
  case None
  then show ?thesis by (simp add: start_def basics Let_def)
next
  case (Some f)
  then show ?thesis
    by (cases "f = []") (simp_all add: start_def synthesizeAndPlay_def basics Let_def)
qed

text \<open>
  Claim C5, as the code has it. For every assistant with a configured (non-empty)
  \<open>firstMessage\<close> F, \<open>start\<close> appends the assistant message F to the history, sends
  \<open>assistant.message\<close>, persists exactly one CallMessage, with role \<open>assistant\<close>, content F
  and \<open>timestampMs\<close> 0, and calls synthesize-and-play on F. It does so whatever
  \<open>firstMessageMode\<close> is: the session never reads the mode, so with
  \<open>assistant-waits-for-user\<close> it speaks first as well. The session stays silent, listening
  for user speech, exactly when no first message (or an empty one) is configured.
\<close>

theorem C5_first_message:
  "(firstMessage (assistant s) = Some f \<and> f \<noteq> [] \<longrightarrow>
      emitted s (start now s) =
        [SocketSend ''call.started''
           (JObj [(''callId'', JStr (callId s)),
                  (''assistant'', JStr (assistantName (assistant s)))]) now,
         CallUpdate (callId s) [(''status'', JStr ''active''), (''startedAt'', JNum (of_int now))],
         SocketSend ''assistant.message'' (JObj [(''text'', JStr f)]) now,
         CallMessageCreate
           [(''callId'', JStr (callId s)), (''role'', JStr ''assistant''), (''content'', JStr f),
            (''toolName'', JUndefined), (''toolArguments'', JUndefined),
            (''toolResult'', JUndefined), (''timestampMs'', JNum 0),
            (''sttLatencyMs'', JUndefined), (''llmLatencyMs'', JUndefined),
            (''ttsLatencyMs'', JUndefined)],
         TtsSynthesize f (Suc (currentSynthesisId s)) now]
      \<and> messages (start now s) =
          messages s @ [\<lparr>role = Assistant, content = f, toolCallId = None\<rparr>]
      \<and> state (start now s) = Speaking)
   \<and> (firstMessage (assistant s) = None \<or> firstMessage (assistant s) = Some [] \<longrightarrow>
      emitted s (start now s) =
        [SocketSend ''call.started''
           (JObj [(''callId'', JStr (callId s)),
                  (''assistant'', JStr (assistantName (assistant s)))]) now,
         CallUpdate (callId s) [(''status'', JStr ''active''), (''startedAt'', JNum (of_int now))]]
      \<and> messages (start now s) = messages s
      \<and> state (start now s) = Listening)
   \<and> start now (s\<lparr>assistant := (assistant s)\<lparr>firstMessageMode := m\<rparr>\<rparr>) =
       (start now s)\<lparr>assistant := (assistant s)\<lparr>firstMessageMode := m\<rparr>\<rparr>"
  using emitted_start_first_message [of s f now] emitted_start_silent [of s now]
    start_ignores_mode [where now = now and s = s and m = m]
  by blast

theorem C5_first_message_witness:
  "emitted (newSession ''c1'' greeter []) (start 0 (newSession ''c1'' greeter [])) =
     [SocketSend ''call.started'' (JObj [(''callId'', JStr ''c1''), (''assistant'', JStr ''Ann'')]) 0,
      CallUpdate ''c1'' [(''status'', JStr ''active''), (''startedAt'', JNum 0)],
      SocketSend ''assistant.message'' (JObj [(''text'', JStr ''Hi.'')]) 0,
      CallMessageCreate
        [(''callId'', JStr ''c1''), (''role'', JStr ''assistant''), (''content'', JStr ''Hi.''),
         (''toolName'', JUndefined), (''toolArguments'', JUndefined), (''toolResult'', JUndefined),
         (''timestampMs'', JNum 0), (''sttLatencyMs'', JUndefined),
         (''llmLatencyMs'', JUndefined), (''ttsLatencyMs'', JUndefined)],
      TtsSynthesize ''Hi.'' 1 0]
   \<and> emitted (newSession ''c1'' listener []) (start 0 (newSession ''c1'' listener [])) =
     [SocketSend ''call.started'' (JObj [(''callId'', JStr ''c1''), (''assistant'', JStr ''Ann'')]) 0,
      CallUpdate ''c1'' [(''status'', JStr ''active''), (''startedAt'', JNum 0)]]"
proof -
  have g: "firstMessage (assistant (newSession ''c1'' greeter [])) = Some ''Hi.''"
    "callId (newSession ''c1'' greeter []) = ''c1''"
    "assistantName (assistant (newSession ''c1'' greeter [])) = ''Ann''"
    "currentSynthesisId (newSession ''c1'' greeter []) = 0"
    by (simp_all add: newSession_def greeter_def)
  have l: "firstMessage (assistant (newSession ''c1'' listener [])) = None"
    "callId (newSession ''c1'' listener []) = ''c1''"
    "assistantName (assistant (newSession ''c1'' listener [])) = ''Ann''"
    by (simp_all add: newSession_def greeter_def listener_def)
  from C5_first_message [where s = "newSession ''c1'' greeter []" and f = "''Hi.''" and now = 0] g
    C5_first_message [where s = "newSession ''c1'' listener []" and f = "''Hi.''" and now = 0] l
  show ?thesis by simp
qed

text \<open>
  The claim's last clause fails: this assistant has the first message \<open>Hi.\<close> and the mode
  \<open>assistant-waits-for-user\<close>, and \<open>start\<close> announces the message and asks for its
  synthesis all the same.
\<close>

theorem C5_waits_for_user_counterexample:
  "firstMessageMode (assistant (newSession ''c1'' waiter [])) = AssistantWaitsForUser
   \<and> filter isSynthesis (effects (start 0 (newSession ''c1'' waiter []))) =
       [TtsSynthesize ''Hi.'' 1 0]
   \<and> filter (isEvent ''assistant.message'') (effects (start 0 (newSession ''c1'' waiter []))) =
       [SocketSend ''assistant.message'' (JObj [(''text'', JStr ''Hi.'')]) 0]
   \<and> state (start 0 (newSession ''c1'' waiter [])) = Speaking"
  by code_simp

section \<open>The assistant recording\<close>

lemma synthesizeAndPlay_resume_survives:
  "state s = Speaking \<Longrightarrow> currentSynthesisId s = sid \<Longrightarrow>
   assistantAudioChunks (synthesizeAndPlay_resume now sid t0 (Audio a) s) =
     assistantAudioChunks s @ (if readyState s = OPEN then [a, a] else [a])
   \<and> filter isAudio (emitted s (synthesizeAndPlay_resume now sid t0 (Audio a) s)) =
     (if readyState s = OPEN then [SocketSendAudio a] else [])"
  by (simp add: synthesizeAndPlay_resume_def sendAudio_def basics Let_def emitted_def)

lemma saveRecording_assistant_blob:
  "assistantAudioChunks s \<noteq> [] \<Longrightarrow>
   userAudioChunks s = [] \<or> writeFileOk w (userPath s) \<Longrightarrow>
   writeFileOk w (assistantPath s) \<Longrightarrow>
   filter (isWriteTo (assistantPath s)) (emitted s (saveRecording w s)) =
     [WriteFile (assistantPath s) (concat (assistantAudioChunks s))]"
  using paths_differ [of s] by (auto simp add: emitted_saveRecording)

text \<open>
  Claim C9, as the code has it. A synthesized audio buffer that survives the interruption
  check is appended to \<open>assistantAudioChunks\<close> twice when the socket is open, once inside
  \<open>sendAudio\<close> and once again in \<open>synthesizeAndPlay\<close>, and it is sent as one binary frame;
  when the socket is not open, \<open>sendAudio\<close> returns before appending or sending, and the
  buffer is appended once. The persisted assistant blob \<open>{callId}-assistant.pcm\<close> is the
  concatenation of \<open>assistantAudioChunks\<close>, so every utterance that was sent is in it
  twice in a row.
\<close>

theorem C9_assistant_audio_recorded:
  "(state s = Speaking \<and> currentSynthesisId s = sid \<longrightarrow>
      assistantAudioChunks (synthesizeAndPlay_resume now sid t0 (Audio a) s) =
        assistantAudioChunks s @ (if readyState s = OPEN then [a, a] else [a])
      \<and> filter isAudio (emitted s (synthesizeAndPlay_resume now sid t0 (Audio a) s)) =
        (if readyState s = OPEN then [SocketSendAudio a] else []))
   \<and> (assistantAudioChunks s \<noteq> [] \<and> (userAudioChunks s = [] \<or> writeFileOk w (userPath s))
        \<and> writeFileOk w (assistantPath s) \<longrightarrow>
      filter (isWriteTo (assistantPath s)) (emitted s (saveRecording w s)) =
        [WriteFile (assistantPath s) (concat (assistantAudioChunks s))])
   \<and> assistantPath s = ''recordings/'' @ callId s @ ''-assistant.pcm''"
  using synthesizeAndPlay_resume_survives [where s = s and sid = sid and now = now and ?t0.0 = t0 and a = a]
    saveRecording_assistant_blob [where s = s and w = w]
  by (simp add: assistantPath_def)

theorem C9_assistant_audio_recorded_witness:
  "assistantAudioChunks
     (run quietWorld [(0, Start), (300, TtsSettled 1 0 (Audio [1, 2, 3, 4]))]
        (newSession ''c1'' greeter [])) = [[1, 2, 3, 4], [1, 2, 3, 4]]
   \<and> filter isAudio
       (emitted (start 0 (newSession ''c1'' greeter []))
          (run quietWorld [(0, Start), (300, TtsSettled 1 0 (Audio [1, 2, 3, 4]))]
             (newSession ''c1'' greeter []))) = [SocketSendAudio [1, 2, 3, 4]]
   \<and> filter (isWriteTo ''recordings/c1-assistant.pcm'')
       (emitted
          (run quietWorld [(0, Start), (300, TtsSettled 1 0 (Audio [1, 2, 3, 4]))]
             (newSession ''c1'' greeter []))
          (saveRecording quietWorld
             (run quietWorld [(0, Start), (300, TtsSettled 1 0 (Audio [1, 2, 3, 4]))]
                (newSession ''c1'' greeter [])))) =
       [WriteFile ''recordings/c1-assistant.pcm'' [1, 2, 3, 4, 1, 2, 3, 4]]"
proof -
  define s0 where "s0 = start 0 (newSession ''c1'' greeter [])"
  define s1 where "s1 = synthesizeAndPlay_resume 300 1 0 (Audio [1, 2, 3, 4]) s0"
  have pre: "state s0 = Speaking" "currentSynthesisId s0 = 1" "readyState s0 = OPEN"
    "assistantAudioChunks s0 = []"
    unfolding s0_def by code_simp+
  from C9_assistant_audio_recorded [where s = s0 and sid = 1 and now = 300 and ?t0.0 = 0
      and a = "[1, 2, 3, 4]"] pre
  have a: "assistantAudioChunks s1 = [[1, 2, 3, 4], [1, 2, 3, 4]]"
    and b: "filter isAudio (emitted s0 s1) = [SocketSendAudio [1, 2, 3, 4]]"
    unfolding s1_def by simp_all
  have files: "userAudioChunks s1 = []" "writeFileOk quietWorld (assistantPath s1)"
    "assistantPath s1 = ''recordings/c1-assistant.pcm''"
    unfolding s1_def s0_def by code_simp+
  from C9_assistant_audio_recorded [where s = s1 and w = quietWorld] a files
  have c: "filter (isWriteTo ''recordings/c1-assistant.pcm'')
       (emitted s1 (saveRecording quietWorld s1)) =
       [WriteFile ''recordings/c1-assistant.pcm'' [1, 2, 3, 4, 1, 2, 3, 4]]"
    by simp
  have run: "run quietWorld [(0, Start), (300, TtsSettled 1 0 (Audio [1, 2, 3, 4]))]
        (newSession ''c1'' greeter []) = s1"
    unfolding s1_def s0_def by simp
  from a b c show ?thesis
    unfolding run unfolding s0_def [symmetric] by simp
qed

text \<open>
  The claim fails when the socket is not open: here the client disconnects while the
  first message is being synthesized. \<open>end\<close> changes neither \<open>state\<close> nor the counter, so
  the audio passes the interruption check when it arrives (the playback timer is set), but
  \<open>sendAudio\<close> returns at its \<open>readyState\<close> test and the buffer is appended once only.
\<close>

theorem C9_closed_socket_counterexample:
  "state (run quietWorld [(0, Start), (50, SocketClosed)] (newSession ''c1'' greeter []))
     = Speaking
   \<and> currentSynthesisId
       (run quietWorld [(0, Start), (50, SocketClosed)] (newSession ''c1'' greeter [])) = 1
   \<and> assistantAudioChunks
       (run quietWorld [(0, Start), (50, SocketClosed),
                        (300, TtsSettled 1 0 (Audio [1, 2, 3, 4]))]
          (newSession ''c1'' greeter [])) = [[1, 2, 3, 4]]
   \<and> timers
       (run quietWorld [(0, Start), (50, SocketClosed),
                        (300, TtsSettled 1 0 (Audio [1, 2, 3, 4]))]
          (newSession ''c1'' greeter [])) = [(800, 1)]"
  by code_simp

section \<open>Provider failure\<close>

text \<open>
  Claim C6, on the code. When \<open>transcribe\<close> throws, the \<open>catch\<close> of \<open>processUserSpeech\<close>
  logs the error and sets the state to \<open>listening\<close>; no user message is appended and the
  session does not end. It sends no \<open>assistant.audio.done\<close>, which the claim requires and
  which the \<open>catch\<close> of \<open>generateResponse\<close> does send when the language model throws.
\<close>

theorem C6_stt_failure:
  "emitted s (processUserSpeech_resume now t0 (SttThrew err) s) = [LogError ''STT error'']
   \<and> filter (isEvent ''assistant.audio.done'')
        (emitted s (processUserSpeech_resume now t0 (SttThrew err) s)) = []
   \<and> state (processUserSpeech_resume now t0 (SttThrew err) s) = Listening
   \<and> messages (processUserSpeech_resume now t0 (SttThrew err) s) = messages s
   \<and> isEnded (processUserSpeech_resume now t0 (SttThrew err) s) = isEnded s
   \<and> emitted s (generateResponse_resume w now t0 (LlmThrew err) s) =
       [LogError ''LLM error'', SocketSend ''assistant.audio.done'' (JObj []) now]"
  by (simp add: processUserSpeech_resume_def generateResponse_resume_def basics emitted_def)

theorem C6_stt_failure_witness:
  "effects
     (run quietWorld [(0, Start), (100, SocketMessage (Binary [0, 16])),
                      (200, SocketMessage (Binary [0, 0])),
                      (1100, SocketMessage (Binary [0, 0])),
                      (1400, SttSettled 1100 (SttThrew ''Deepgram error: 500''))]
        (newSession ''c1'' listener [])) =
     [SocketSend ''call.started'' (JObj [(''callId'', JStr ''c1''), (''assistant'', JStr ''Ann'')]) 0,
      CallUpdate ''c1'' [(''status'', JStr ''active''), (''startedAt'', JNum 0)],
      SocketSend ''speech.started'' (JObj []) 100,
      SocketSend ''speech.ended'' (JObj []) 1100,
      SocketSend ''assistant.thinking'' (JObj []) 1100,
      SttTranscribe [0, 16, 0, 0, 0, 0] 1100,
      LogError ''STT error'']"
proof -
  define s0 where "s0 = run quietWorld [(0, Start), (100, SocketMessage (Binary [0, 16])),
                      (200, SocketMessage (Binary [0, 0])),
                      (1100, SocketMessage (Binary [0, 0]))]
        (newSession ''c1'' listener [])"
  have e0: "effects s0 =
     [SocketSend ''call.started'' (JObj [(''callId'', JStr ''c1''), (''assistant'', JStr ''Ann'')]) 0,
      CallUpdate ''c1'' [(''status'', JStr ''active''), (''startedAt'', JNum 0)],
      SocketSend ''speech.started'' (JObj []) 100,
      SocketSend ''speech.ended'' (JObj []) 1100,
      SocketSend ''assistant.thinking'' (JObj []) 1100,
      SttTranscribe [0, 16, 0, 0, 0, 0] 1100]"
    unfolding s0_def by code_simp
  have grow: "effects (processUserSpeech_resume 1400 1100 (SttThrew ''Deepgram error: 500'') s0) =
      effects s0 @ emitted s0 (processUserSpeech_resume 1400 1100 (SttThrew ''Deepgram error: 500'') s0)"
    by (simp add: processUserSpeech_resume_def basics emitted_def)
  from C6_stt_failure [where s = s0 and now = 1400 and ?t0.0 = 1100
      and err = "''Deepgram error: 500''"] grow e0
  have "effects (processUserSpeech_resume 1400 1100 (SttThrew ''Deepgram error: 500'') s0) =
     [SocketSend ''call.started'' (JObj [(''callId'', JStr ''c1''), (''assistant'', JStr ''Ann'')]) 0,
      CallUpdate ''c1'' [(''status'', JStr ''active''), (''startedAt'', JNum 0)],
      SocketSend ''speech.started'' (JObj []) 100,
      SocketSend ''speech.ended'' (JObj []) 1100,
      SocketSend ''assistant.thinking'' (JObj []) 1100,
      SttTranscribe [0, 16, 0, 0, 0, 0] 1100,
      LogError ''STT error'']"
    by simp
  then show ?thesis unfolding s0_def by simp
qed

section \<open>Transfer\<close>

lemma emitted_transfer:
  "callName tc = ''transferCall'' \<Longrightarrow>
   emitted s (handleToolCall w now tc s) =
     [SocketSend ''tool.called''
        (JObj [(''name'', JStr ''transferCall''), (''arguments'', callArguments tc)]) now,
      SocketSend ''transfer.started''
        (JObj [(''destination'', getProp (callArguments tc) ''number'')]) now]"
  by (simp add: handleToolCall_def basics Let_def emitted_def)

lemma transfer_then_generate:
  "callName tc = ''transferCall'' \<Longrightarrow>
   emitted s (generateResponse_resume w now t0 (LlmResponse reply [tc]) s) =
     [SocketSend ''tool.called''
        (JObj [(''name'', JStr ''transferCall''), (''arguments'', callArguments tc)]) now,
      SocketSend ''transfer.started''
        (JObj [(''destination'', getProp (callArguments tc) ''number'')]) now,
      LlmGenerate (messages s) (getToolDefinitions (toolExecutor s)) now]"
  by (simp add: generateResponse_resume_def generateResponse_def handleToolCall_def basics
      Let_def emitted_def)

lemma transfer_definition_required:
  "toolType t = ''transfer'' \<Longrightarrow>
   map (\<lambda>d. (defName d, getProp (defParameters d) ''required'')) (toolDefinition t) =
     [(''transferCall'', JArr [JStr ''destination''])]"
  by (simp add: toolDefinition_def)

text \<open>
  Claim C7, on the code. For a tool call named \<open>transferCall\<close> the session sends
  \<open>tool.called\<close> and then \<open>transfer.started\<close>, but the destination it puts there is the
  argument \<open>number\<close>, not the argument \<open>destination\<close> that the projected tool definition
  requires and that \<open>execute\<close> reads; and \<open>generateResponse\<close> then asks the language model
  again, so the turn can go on to synthesize audio.
\<close>

theorem C7_transfer_call:
  "(callName tc = ''transferCall'' \<longrightarrow>
      emitted s (handleToolCall w now tc s) =
        [SocketSend ''tool.called''
           (JObj [(''name'', JStr ''transferCall''), (''arguments'', callArguments tc)]) now,
         SocketSend ''transfer.started''
           (JObj [(''destination'', getProp (callArguments tc) ''number'')]) now]
      \<and> emitted s (generateResponse_resume w now t0 (LlmResponse reply [tc]) s) =
        [SocketSend ''tool.called''
           (JObj [(''name'', JStr ''transferCall''), (''arguments'', callArguments tc)]) now,
         SocketSend ''transfer.started''
           (JObj [(''destination'', getProp (callArguments tc) ''number'')]) now,
         LlmGenerate (messages s) (getToolDefinitions (toolExecutor s)) now])
   \<and> (toolType t = ''transfer'' \<longrightarrow>
        map (\<lambda>d. (defName d, getProp (defParameters d) ''required'')) (toolDefinition t) =
          [(''transferCall'', JArr [JStr ''destination''])])
   \<and> fst (execute w tools ''transferCall'' args) =
        JObj [(''action'', JStr ''transfer''), (''destination'', getProp args ''destination''),
              (''reason'', getProp args ''reason'')]"
  using emitted_transfer [where tc = tc and s = s and w = w and now = now]
    transfer_then_generate [where tc = tc and s = s and w = w and now = now and ?t0.0 = t0
      and reply = reply]
    transfer_definition_required [where t = t]
  by (simp add: execute_def)

theorem C7_transfer_call_witness:
  "emitted (start 0 (newSession ''c1'' listener [transferTool]))
     (handleToolCall quietWorld 1600
        \<lparr>callIdent = ''call_1'', callName = ''transferCall'',
         callArguments = JObj [(''destination'', JStr ''+15551234'')]\<rparr>
        (start 0 (newSession ''c1'' listener [transferTool]))) =
     [SocketSend ''tool.called''
        (JObj [(''name'', JStr ''transferCall''),
               (''arguments'', JObj [(''destination'', JStr ''+15551234'')])]) 1600,
      SocketSend ''transfer.started'' (JObj [(''destination'', JUndefined)]) 1600]
   \<and> map (\<lambda>d. (defName d, getProp (defParameters d) ''required''))
        (getToolDefinitions (toolExecutor (newSession ''c1'' listener [transferTool]))) =
       [(''transferCall'', JArr [JStr ''destination''])]
   \<and> fst (execute quietWorld (toolExecutor (newSession ''c1'' listener [transferTool]))
        ''transferCall'' (JObj [(''destination'', JStr ''+15551234'')])) =
       JObj [(''action'', JStr ''transfer''), (''destination'', JStr ''+15551234''),
             (''reason'', JUndefined)]
   \<and> filter isSynthesis
       (effects (run quietWorld
          [(0, Start),
           (1600, LlmSettled 1500 (LlmResponse []
              [\<lparr>callIdent = ''call_1'', callName = ''transferCall'',
                callArguments = JObj [(''destination'', JStr ''+15551234'')]\<rparr>])),
           (1900, LlmSettled 1600 (LlmResponse ''One moment.'' []))]
          (newSession ''c1'' listener [transferTool]))) =
     [TtsSynthesize ''One moment.'' 1 1900]"
proof -
  note inst = C7_transfer_call [where tc = "\<lparr>callIdent = ''call_1'', callName = ''transferCall'',
         callArguments = JObj [(''destination'', JStr ''+15551234'')]\<rparr>"
        and s = "start 0 (newSession ''c1'' listener [transferTool])" and w = quietWorld
        and now = 1600 and t = transferTool
        and tools = "toolExecutor (newSession ''c1'' listener [transferTool])"
        and args = "JObj [(''destination'', JStr ''+15551234'')]"]
  have a: "emitted (start 0 (newSession ''c1'' listener [transferTool]))
     (handleToolCall quietWorld 1600
        \<lparr>callIdent = ''call_1'', callName = ''transferCall'',
         callArguments = JObj [(''destination'', JStr ''+15551234'')]\<rparr>
        (start 0 (newSession ''c1'' listener [transferTool]))) =
     [SocketSend ''tool.called''
        (JObj [(''name'', JStr ''transferCall''),
               (''arguments'', JObj [(''destination'', JStr ''+15551234'')])]) 1600,
      SocketSend ''transfer.started'' (JObj [(''destination'', JUndefined)]) 1600]"
    using inst by simp
  have tool: "toolType transferTool = ''transfer''"
    by (simp add: transferTool_def)
  have defs: "getToolDefinitions (toolExecutor (newSession ''c1'' listener [transferTool])) =
      toolDefinition transferTool"
    by (simp add: getToolDefinitions_def newSession_def newToolExecutor_def)
  from inst tool defs
  have b: "map (\<lambda>d. (defName d, getProp (defParameters d) ''required''))
        (getToolDefinitions (toolExecutor (newSession ''c1'' listener [transferTool]))) =
       [(''transferCall'', JArr [JStr ''destination''])]"
    by simp
  from inst
  have c: "fst (execute quietWorld (toolExecutor (newSession ''c1'' listener [transferTool]))
        ''transferCall'' (JObj [(''destination'', JStr ''+15551234'')])) =
       JObj [(''action'', JStr ''transfer''), (''destination'', JStr ''+15551234''),
             (''reason'', JUndefined)]"
    by simp
  have d: "filter isSynthesis
       (effects (run quietWorld
          [(0, Start),
           (1600, LlmSettled 1500 (LlmResponse []
              [\<lparr>callIdent = ''call_1'', callName = ''transferCall'',
                callArguments = JObj [(''destination'', JStr ''+15551234'')]\<rparr>])),
           (1900, LlmSettled 1600 (LlmResponse ''One moment.'' []))]
          (newSession ''c1'' listener [transferTool]))) =
     [TtsSynthesize ''One moment.'' 1 1900]"
    by code_simp
  from a b c d show ?thesis by (intro conjI)
qed

section \<open>The status of the call\<close>

lemma status_written_start:
  "filter (\<lambda>e. statusWritten e \<noteq> JUndefined) (emitted s (start now s)) =
     [CallUpdate (callId s) [(''status'', JStr ''active''), (''startedAt'', JNum (of_int now))]]"
proof (cases "firstMessage (assistant s)")
  case None
  then show ?thesis using emitted_start_silent [of s now] by simp
next
  case (Some f)
  show ?thesis
  proof (cases "f = []")
    case True
    with Some show ?thesis using emitted_start_silent [of s now] by simp
  next
    case False
    with Some show ?thesis using emitted_start_first_message [of s f now] by simp
  qed
qed

text \<open>
  Claim C8, on the code. The only status \<open>start\<close> writes to the Call row is \<open>active\<close>, with
  started-at now; \<open>active\<close> is not a value of the declared \<open>CallStatus\<close>. The route that
  accepts the socket has written \<open>in-progress\<close> just before, so the row goes from
  \<open>in-progress\<close> to \<open>active\<close>.
\<close>

theorem C8_start_status:
  "filter (\<lambda>e. statusWritten e \<noteq> JUndefined) (emitted s (start now s)) =
     [CallUpdate (callId s) [(''status'', JStr ''active''), (''startedAt'', JNum (of_int now))]]
   \<and> ''active'' \<notin> set CallStatus
   \<and> ''in-progress'' \<in> set CallStatus
   \<and> map statusWritten
        (filter (\<lambda>e. statusWritten e \<noteq> JUndefined) (effects (wsRoute now cid a ts))) =
      [JStr ''in-progress'', JStr ''active'']"
proof -
  let ?s = "emit (CallUpdate cid
          [(''status'', JStr ''in-progress''), (''startedAt'', JNum (of_int now))])
          (newSession cid a ts)"
  have grow: "effects (start now ?s) = effects ?s @ emitted ?s (start now ?s)"
    by (simp add: start_def synthesizeAndPlay_def basics Let_def emitted_def split: option.split)
  have "effects ?s = [CallUpdate cid
          [(''status'', JStr ''in-progress''), (''startedAt'', JNum (of_int now))]]"
    by (simp add: emit_def newSession_def)
  with grow status_written_start [of ?s now]
  have route: "map statusWritten
        (filter (\<lambda>e. statusWritten e \<noteq> JUndefined) (effects (wsRoute now cid a ts))) =
      [JStr ''in-progress'', JStr ''active'']"
    by (simp add: wsRoute_def)
  from route status_written_start [of s now] show ?thesis
    by (simp add: CallStatus_def)
qed

theorem C8_start_status_witness:
  "effects (wsRoute 0 ''c1'' listener []) =
     [CallUpdate ''c1'' [(''status'', JStr ''in-progress''), (''startedAt'', JNum 0)],
      SocketSend ''call.started'' (JObj [(''callId'', JStr ''c1''), (''assistant'', JStr ''Ann'')]) 0,
      CallUpdate ''c1'' [(''status'', JStr ''active''), (''startedAt'', JNum 0)]]
   \<and> map statusWritten
        (filter (\<lambda>e. statusWritten e \<noteq> JUndefined) (effects (wsRoute 0 ''c1'' listener []))) =
      [JStr ''in-progress'', JStr ''active'']"
proof -
  have a: "effects (wsRoute 0 ''c1'' listener []) =
     [CallUpdate ''c1'' [(''status'', JStr ''in-progress''), (''startedAt'', JNum 0)],
      SocketSend ''call.started'' (JObj [(''callId'', JStr ''c1''), (''assistant'', JStr ''Ann'')]) 0,
      CallUpdate ''c1'' [(''status'', JStr ''active''), (''startedAt'', JNum 0)]]"
    by code_simp
  from C8_start_status [where now = 0 and cid = "''c1''" and a = listener and ts = "[]"]
  have b: "map statusWritten
        (filter (\<lambda>e. statusWritten e \<noteq> JUndefined) (effects (wsRoute 0 ''c1'' listener []))) =
      [JStr ''in-progress'', JStr ''active'']"
    by simp
  from a b show ?thesis by (rule conjI)
qed

section \<open>The maximum call duration\<close>

text \<open>The session does not read \<open>maxCallDurationSeconds\<close>: changing it commutes with every
  operation.\<close>

lemma wmd_select:
  "assistant (withMaxDuration d s) = (assistant s)\<lparr>maxCallDurationSeconds := d\<rparr>"
  "callId (withMaxDuration d s) = callId s"
  "toolExecutor (withMaxDuration d s) = toolExecutor s"
  "messages (withMaxDuration d s) = messages s"
  "state (withMaxDuration d s) = state s"
  "startTime (withMaxDuration d s) = startTime s"
  "isEnded (withMaxDuration d s) = isEnded s"
  "onSessionEnd (withMaxDuration d s) = onSessionEnd s"
  "audioBuffer (withMaxDuration d s) = audioBuffer s"
  "silenceStart (withMaxDuration d s) = silenceStart s"
  "isSpeaking (withMaxDuration d s) = isSpeaking s"
  "currentSynthesisId (withMaxDuration d s) = currentSynthesisId s"
  "userAudioChunks (withMaxDuration d s) = userAudioChunks s"
  "assistantAudioChunks (withMaxDuration d s) = assistantAudioChunks s"
  "sttLatency (withMaxDuration d s) = sttLatency s"
  "llmLatency (withMaxDuration d s) = llmLatency s"
  "ttsLatency (withMaxDuration d s) = ttsLatency s"
  "readyState (withMaxDuration d s) = readyState s"
  "handlersInstalled (withMaxDuration d s) = handlersInstalled s"
  "timers (withMaxDuration d s) = timers s"
  "effects (withMaxDuration d s) = effects s"
  by (simp_all add: withMaxDuration_def)

lemma wmd_update:
  "callId_update g0 (withMaxDuration d s) = withMaxDuration d (callId_update g0 s)"
  "toolExecutor_update g1 (withMaxDuration d s) = withMaxDuration d (toolExecutor_update g1 s)"
  "messages_update g2 (withMaxDuration d s) = withMaxDuration d (messages_update g2 s)"
  "state_update g3 (withMaxDuration d s) = withMaxDuration d (state_update g3 s)"
  "startTime_update g4 (withMaxDuration d s) = withMaxDuration d (startTime_update g4 s)"
  "isEnded_update g5 (withMaxDuration d s) = withMaxDuration d (isEnded_update g5 s)"
  "onSessionEnd_update g6 (withMaxDuration d s) = withMaxDuration d (onSessionEnd_update g6 s)"
  "audioBuffer_update g7 (withMaxDuration d s) = withMaxDuration d (audioBuffer_update g7 s)"
  "silenceStart_update g8 (withMaxDuration d s) = withMaxDuration d (silenceStart_update g8 s)"
  "isSpeaking_update g9 (withMaxDuration d s) = withMaxDuration d (isSpeaking_update g9 s)"
  "currentSynthesisId_update g10 (withMaxDuration d s) = withMaxDuration d (currentSynthesisId_update g10 s)"
  "userAudioChunks_update g11 (withMaxDuration d s) = withMaxDuration d (userAudioChunks_update g11 s)"
  "assistantAudioChunks_update g12 (withMaxDuration d s) = withMaxDuration d (assistantAudioChunks_update g12 s)"
  "sttLatency_update g13 (withMaxDuration d s) = withMaxDuration d (sttLatency_update g13 s)"
  "llmLatency_update g14 (withMaxDuration d s) = withMaxDuration d (llmLatency_update g14 s)"
  "ttsLatency_update g15 (withMaxDuration d s) = withMaxDuration d (ttsLatency_update g15 s)"
  "readyState_update g16 (withMaxDuration d s) = withMaxDuration d (readyState_update g16 s)"
  "handlersInstalled_update g17 (withMaxDuration d s) = withMaxDuration d (handlersInstalled_update g17 s)"
  "timers_update g18 (withMaxDuration d s) = withMaxDuration d (timers_update g18 s)"
  "effects_update g19 (withMaxDuration d s) = withMaxDuration d (effects_update g19 s)"
  by (simp_all add: withMaxDuration_def)

lemmas wmd = wmd_select wmd_update

lemma wmd_emit: "emit e (withMaxDuration d s) = withMaxDuration d (emit e s)"
  by (simp add: emit_def wmd)

lemma wmd_sendEvent:
  "sendEvent now ty dat (withMaxDuration d s) = withMaxDuration d (sendEvent now ty dat s)"
  by (simp add: sendEvent_def wmd_emit)

lemma wmd_pushMessage: "pushMessage m (withMaxDuration d s) = withMaxDuration d (pushMessage m s)"
  by (simp add: pushMessage_def wmd)

lemma wmd_saveMessage: "saveMessage m (withMaxDuration d s) = withMaxDuration d (saveMessage m s)"
  by (simp add: saveMessage_def wmd_emit wmd)

lemmas wmd_basics = wmd wmd_emit wmd_sendEvent wmd_pushMessage wmd_saveMessage

lemma wmd_sendAudio: "sendAudio a (withMaxDuration d s) = withMaxDuration d (sendAudio a s)"
  by (simp add: sendAudio_def wmd_basics)

lemma wmd_handleInterrupt:
  "handleInterrupt now (withMaxDuration d s) = withMaxDuration d (handleInterrupt now s)"
  by (simp add: handleInterrupt_def wmd_basics)

lemma wmd_synthesizeAndPlay:
  "synthesizeAndPlay now t l (withMaxDuration d s) = withMaxDuration d (synthesizeAndPlay now t l s)"
  by (simp add: synthesizeAndPlay_def Let_def wmd_basics)

lemma wmd_synthesizeAndPlay_resume:
  "synthesizeAndPlay_resume now sid t0 outcome (withMaxDuration d s) =
   withMaxDuration d (synthesizeAndPlay_resume now sid t0 outcome s)"
  by (cases outcome) (simp_all add: synthesizeAndPlay_resume_def Let_def wmd_basics wmd_sendAudio)

lemma wmd_playbackTimeout:
  "playbackTimeout now sid (withMaxDuration d s) = withMaxDuration d (playbackTimeout now sid s)"
  by (simp add: playbackTimeout_def wmd_basics)

lemma wmd_foldl_playbackTimeout:
  "foldl (\<lambda>s' t. playbackTimeout now (snd t) s') (withMaxDuration d s) ts =
   withMaxDuration d (foldl (\<lambda>s' t. playbackTimeout now (snd t) s') s ts)"
  by (induction ts arbitrary: s) (simp_all add: wmd_playbackTimeout)

lemma wmd_runTimers: "runTimers now (withMaxDuration d s) = withMaxDuration d (runTimers now s)"
  by (simp add: runTimers_def wmd wmd_foldl_playbackTimeout)

lemma wmd_paths:
  "userPath (withMaxDuration d s) = userPath s"
  "assistantPath (withMaxDuration d s) = assistantPath s"
  by (simp_all add: userPath_def assistantPath_def wmd)

lemma wmd_saveRecording:
  "saveRecording w (withMaxDuration d s) = withMaxDuration d (saveRecording w s)"
  by (simp add: saveRecording_def Let_def wmd_basics wmd_paths path_simps)

lemma wmd_closeSocket: "closeSocket (withMaxDuration d s) = withMaxDuration d (closeSocket s)"
  by (simp add: closeSocket_def wmd_basics)

lemma wmd_end_session:
  "end_session w now r (withMaxDuration d s) = withMaxDuration d (end_session w now r s)"
  by (simp add: end_session_def Let_def wmd_basics wmd_saveRecording wmd_closeSocket)

lemma wmd_processUserSpeech:
  "processUserSpeech now (withMaxDuration d s) = withMaxDuration d (processUserSpeech now s)"
  by (simp add: processUserSpeech_def Let_def wmd_basics)

lemma wmd_generateResponse:
  "generateResponse now (withMaxDuration d s) = withMaxDuration d (generateResponse now s)"
  by (simp add: generateResponse_def wmd_basics)

lemma wmd_handleToolCall:
  "handleToolCall w now tc (withMaxDuration d s) = withMaxDuration d (handleToolCall w now tc s)"
  by (simp add: handleToolCall_def Let_def wmd_basics wmd_end_session)

lemma wmd_foldl_handleToolCall:
  "foldl (\<lambda>s' tc. handleToolCall w now tc s') (withMaxDuration d s) tcs =
   withMaxDuration d (foldl (\<lambda>s' tc. handleToolCall w now tc s') s tcs)"
  by (induction tcs arbitrary: s) (simp_all add: wmd_handleToolCall)

lemma wmd_generateResponse_resume:
  "generateResponse_resume w now t0 outcome (withMaxDuration d s) =
   withMaxDuration d (generateResponse_resume w now t0 outcome s)"
  by (cases outcome)
     (simp_all add: generateResponse_resume_def Let_def wmd_basics wmd_generateResponse
        wmd_foldl_handleToolCall wmd_synthesizeAndPlay)

lemma wmd_processUserSpeech_resume:
  "processUserSpeech_resume now t0 outcome (withMaxDuration d s) =
   withMaxDuration d (processUserSpeech_resume now t0 outcome s)"
  by (cases outcome)
     (simp_all add: processUserSpeech_resume_def Let_def wmd_basics wmd_generateResponse)

lemma wmd_handleAudioData:
  "handleAudioData now frame (withMaxDuration d s) =
   (fst (handleAudioData now frame s), withMaxDuration d (snd (handleAudioData now frame s)))"
  by (cases "detectVoiceActivity frame")
     (simp_all add: handleAudioData_def Let_def silenceTimeout_def wmd_basics
        wmd_handleInterrupt wmd_processUserSpeech)

lemma wmd_handleControlMessage:
  "handleControlMessage w now m (withMaxDuration d s) =
   (fst (handleControlMessage w now m s), withMaxDuration d (snd (handleControlMessage w now m s)))"
  by (simp add: handleControlMessage_def wmd_end_session wmd_handleInterrupt)

lemma wmd_caught: "caught (e, withMaxDuration d s) = withMaxDuration d (caught (e, s))"
  by (cases e) (simp_all add: caught_def wmd_emit)

lemma wmd_onMessage:
  "onMessage w now dat (withMaxDuration d s) = withMaxDuration d (onMessage w now dat s)"
proof (cases dat)
  case (Binary frame)
  have "caught (handleAudioData now frame s) =
        caught (fst (handleAudioData now frame s), snd (handleAudioData now frame s))"
    by simp
  with Binary show ?thesis
    by (simp only: onMessage_def ws_data.case wmd_handleAudioData wmd_caught)
next
  case (Text t)
  show ?thesis
  proof (cases "jsonParse w t")
    case None
    with Text show ?thesis by (simp add: onMessage_def wmd_caught)
  next
    case (Some m)
    have "caught (handleControlMessage w now m s) =
        caught (fst (handleControlMessage w now m s), snd (handleControlMessage w now m s))"
      by simp
    with Text Some show ?thesis
      by (simp only: onMessage_def ws_data.case option.case wmd_handleControlMessage wmd_caught)
  qed
qed

lemma wmd_onClose: "onClose w now (withMaxDuration d s) = withMaxDuration d (onClose w now s)"
  by (simp add: onClose_def Let_def wmd_basics wmd_end_session)

lemma wmd_onError: "onError (withMaxDuration d s) = withMaxDuration d (onError s)"
  by (simp add: onError_def wmd_emit)

lemma wmd_start: "start now (withMaxDuration d s) = withMaxDuration d (start now s)"
  by (simp add: start_def Let_def wmd_basics wmd_synthesizeAndPlay split: option.split)

lemma wmd_step: "step w now i (withMaxDuration d s) = withMaxDuration d (step w now i s)"
  by (cases i)
     (simp_all add: wmd_start wmd_onMessage wmd_onClose wmd_onError wmd_select
        wmd_processUserSpeech_resume wmd_generateResponse_resume wmd_synthesizeAndPlay_resume
        wmd_runTimers wmd_end_session)

lemma wmd_run: "run w evs (withMaxDuration d s) = withMaxDuration d (run w evs s)"
  by (induction evs arbitrary: s) (simp_all add: wmd_step)

text \<open>No operation of the session sends \<open>call.ended\<close> with the reason \<open>max-duration\<close>, and
  the timer callbacks never end the session.\<close>

lemma md_update:
  "maxDurationEnds (callId_update g0 s) = maxDurationEnds s"
  "maxDurationEnds (assistant_update g1 s) = maxDurationEnds s"
  "maxDurationEnds (toolExecutor_update g2 s) = maxDurationEnds s"
  "maxDurationEnds (messages_update g3 s) = maxDurationEnds s"
  "maxDurationEnds (state_update g4 s) = maxDurationEnds s"
  "maxDurationEnds (startTime_update g5 s) = maxDurationEnds s"
  "maxDurationEnds (isEnded_update g6 s) = maxDurationEnds s"
  "maxDurationEnds (onSessionEnd_update g7 s) = maxDurationEnds s"
  "maxDurationEnds (audioBuffer_update g8 s) = maxDurationEnds s"
  "maxDurationEnds (silenceStart_update g9 s) = maxDurationEnds s"
  "maxDurationEnds (isSpeaking_update g10 s) = maxDurationEnds s"
  "maxDurationEnds (currentSynthesisId_update g11 s) = maxDurationEnds s"
  "maxDurationEnds (userAudioChunks_update g12 s) = maxDurationEnds s"
  "maxDurationEnds (assistantAudioChunks_update g13 s) = maxDurationEnds s"
  "maxDurationEnds (sttLatency_update g14 s) = maxDurationEnds s"
  "maxDurationEnds (llmLatency_update g15 s) = maxDurationEnds s"
  "maxDurationEnds (ttsLatency_update g16 s) = maxDurationEnds s"
  "maxDurationEnds (readyState_update g17 s) = maxDurationEnds s"
  "maxDurationEnds (handlersInstalled_update g18 s) = maxDurationEnds s"
  "maxDurationEnds (timers_update g19 s) = maxDurationEnds s"
  by (simp_all add: maxDurationEnds_def)

lemma md_emit:
  "maxDurationEnds (emit e s) =
   maxDurationEnds s @ (if endedWith ''max-duration'' e then [e] else [])"
  by (simp add: maxDurationEnds_def emit_def)

lemma md_sendEvent:
  "maxDurationEnds (sendEvent now ty dat s) =
   maxDurationEnds s @
     (if ty = ''call.ended'' \<and> getProp dat ''reason'' = JStr ''max-duration''
      then [SocketSend ty dat now] else [])"
  by (simp add: sendEvent_def md_emit)

lemma md_pushMessage: "maxDurationEnds (pushMessage m s) = maxDurationEnds s"
  by (simp add: pushMessage_def md_update)

lemma md_saveMessage: "maxDurationEnds (saveMessage m s) = maxDurationEnds s"
  by (simp add: saveMessage_def md_emit)

lemmas md = md_update md_emit md_sendEvent md_pushMessage md_saveMessage

lemma md_sendAudio: "maxDurationEnds (sendAudio a s) = maxDurationEnds s"
  by (simp add: sendAudio_def md)

lemma md_handleInterrupt: "maxDurationEnds (handleInterrupt now s) = maxDurationEnds s"
  by (simp add: handleInterrupt_def md)

lemma md_synthesizeAndPlay: "maxDurationEnds (synthesizeAndPlay now t l s) = maxDurationEnds s"
  by (simp add: synthesizeAndPlay_def Let_def md)

lemma md_synthesizeAndPlay_resume:
  "maxDurationEnds (synthesizeAndPlay_resume now sid t0 outcome s) = maxDurationEnds s"
  by (cases outcome) (simp_all add: synthesizeAndPlay_resume_def Let_def md md_sendAudio)

lemma md_playbackTimeout: "maxDurationEnds (playbackTimeout now sid s) = maxDurationEnds s"
  by (simp add: playbackTimeout_def md)

lemma timers_keep_session:
  "maxDurationEnds (playbackTimeout now sid s) = maxDurationEnds s"
  "isEnded (playbackTimeout now sid s) = isEnded s"
  "filter (isEvent ''call.ended'') (effects (playbackTimeout now sid s)) =
   filter (isEvent ''call.ended'') (effects s)"
  by (simp_all add: md_playbackTimeout) (simp_all add: playbackTimeout_def basics)

lemma foldl_timers_keep_session:
  "maxDurationEnds (foldl (\<lambda>s' t. playbackTimeout now (snd t) s') s ts) = maxDurationEnds s
   \<and> isEnded (foldl (\<lambda>s' t. playbackTimeout now (snd t) s') s ts) = isEnded s
   \<and> filter (isEvent ''call.ended'')
        (effects (foldl (\<lambda>s' t. playbackTimeout now (snd t) s') s ts)) =
       filter (isEvent ''call.ended'') (effects s)"
  by (induction ts arbitrary: s) (simp_all add: timers_keep_session)

lemma runTimers_keeps_session:
  "maxDurationEnds (runTimers now s) = maxDurationEnds s"
  "isEnded (runTimers now s) = isEnded s"
  "filter (isEvent ''call.ended'') (effects (runTimers now s)) =
   filter (isEvent ''call.ended'') (effects s)"
  by (simp_all add: runTimers_def foldl_timers_keep_session md_update)

lemma md_saveRecording: "maxDurationEnds (saveRecording w s) = maxDurationEnds s"
  by (simp add: saveRecording_def Let_def md)

lemma md_closeSocket: "maxDurationEnds (closeSocket s) = maxDurationEnds s"
  by (simp add: closeSocket_def md)

lemma md_end_session:
  "r \<noteq> ''max-duration'' \<Longrightarrow> maxDurationEnds (end_session w now r s) = maxDurationEnds s"
  by (simp add: end_session_def Let_def md md_saveRecording md_closeSocket)

lemma md_processUserSpeech: "maxDurationEnds (processUserSpeech now s) = maxDurationEnds s"
  by (simp add: processUserSpeech_def Let_def md)

lemma md_generateResponse: "maxDurationEnds (generateResponse now s) = maxDurationEnds s"
  by (simp add: generateResponse_def md)

lemma md_execute: "filter (endedWith r) (snd (execute w tools n a)) = []"
  by (simp add: execute_def split: option.split fetch_outcome.split)

lemma md_effects_append:
  "maxDurationEnds (s\<lparr>effects := effects s @ xs\<rparr>) =
   maxDurationEnds s @ filter (endedWith ''max-duration'') xs"
  by (simp add: maxDurationEnds_def)

lemma md_handleToolCall: "maxDurationEnds (handleToolCall w now tc s) = maxDurationEnds s"
  by (simp add: handleToolCall_def Let_def md md_end_session md_effects_append md_execute)

lemma md_foldl_handleToolCall:
  "maxDurationEnds (foldl (\<lambda>s' tc. handleToolCall w now tc s') s tcs) = maxDurationEnds s"
  by (induction tcs arbitrary: s) (simp_all add: md_handleToolCall)

lemma md_generateResponse_resume:
  "maxDurationEnds (generateResponse_resume w now t0 outcome s) = maxDurationEnds s"
  by (cases outcome)
     (simp_all add: generateResponse_resume_def Let_def md md_generateResponse
        md_foldl_handleToolCall md_synthesizeAndPlay)

lemma md_processUserSpeech_resume:
  "maxDurationEnds (processUserSpeech_resume now t0 outcome s) = maxDurationEnds s"
  by (cases outcome) (simp_all add: processUserSpeech_resume_def Let_def md md_generateResponse)

lemma md_handleAudioData:
  "maxDurationEnds (snd (handleAudioData now frame s)) = maxDurationEnds s"
  by (cases "detectVoiceActivity frame")
     (simp_all add: handleAudioData_def Let_def md md_handleInterrupt md_processUserSpeech)

lemma md_handleControlMessage:
  "maxDurationEnds (snd (handleControlMessage w now m s)) = maxDurationEnds s"
  by (simp add: handleControlMessage_def md_end_session md_handleInterrupt)

lemma md_caught: "maxDurationEnds (caught r) = maxDurationEnds (snd r)"
  by (cases "fst r") (simp_all add: caught_def md)

lemma md_onMessage: "maxDurationEnds (onMessage w now dat s) = maxDurationEnds s"
  by (cases dat)
     (simp_all add: onMessage_def md_caught md_handleAudioData md_handleControlMessage
        split: option.split)

lemma md_onClose: "maxDurationEnds (onClose w now s) = maxDurationEnds s"
  by (simp add: onClose_def Let_def md md_end_session)

lemma md_start: "maxDurationEnds (start now s) = maxDurationEnds s"
  by (simp add: start_def Let_def md md_synthesizeAndPlay split: option.split)

lemma md_step:
  "i \<noteq> EndCalled ''max-duration'' \<Longrightarrow> maxDurationEnds (step w now i s) = maxDurationEnds s"
  by (cases i)
     (simp_all add: md_start md_onMessage md_onClose onError_def md
        md_processUserSpeech_resume md_generateResponse_resume md_synthesizeAndPlay_resume
        runTimers_keeps_session md_end_session)

lemma md_run:
  "\<forall>e \<in> set evs. snd e \<noteq> EndCalled ''max-duration'' \<Longrightarrow>
   maxDurationEnds (run w evs s) = maxDurationEnds s"
  by (induction evs arbitrary: s) (simp_all add: md_step)

lemma time_alone_run:
  "\<forall>e \<in> set evs. snd e = TimePasses \<Longrightarrow>
   isEnded (run w evs s) = isEnded s
   \<and> filter (isEvent ''call.ended'') (effects (run w evs s)) =
       filter (isEvent ''call.ended'') (effects s)"
  by (induction evs arbitrary: s) (simp_all add: runTimers_keeps_session)

text \<open>
  Claim C2, as the code has it. For a session whose assistant has
  \<open>maxCallDurationSeconds = D\<close>, no timer enforces the maximum call duration. The only
  callbacks the session registers are the playback callbacks of \<open>synthesizeAndPlay\<close>, and
  running them never ends the session nor sends \<open>call.ended\<close>: the passing of time alone,
  to \<open>D\<close> seconds after the start or to any other time, leaves a session that has not ended
  not ended. The session never sends \<open>call.ended\<close> with reason \<open>max-duration\<close> along any run
  in which \<open>end("max-duration")\<close> is not called from outside, and it never reads \<open>D\<close>: it
  runs in the same way for every value of \<open>D\<close>.
\<close>

theorem C2_no_max_duration_timer:
  "isEnded (runTimers now s) = isEnded s
   \<and> filter (isEvent ''call.ended'') (effects (runTimers now s)) =
       filter (isEvent ''call.ended'') (effects s)
   \<and> ((\<forall>e \<in> set evs. snd e = TimePasses) \<longrightarrow>
        isEnded (run w evs s) = isEnded s
        \<and> filter (isEvent ''call.ended'') (effects (run w evs s)) =
            filter (isEvent ''call.ended'') (effects s))
   \<and> ((\<forall>e \<in> set evs. snd e \<noteq> EndCalled ''max-duration'') \<longrightarrow>
        maxDurationEnds (run w evs s) = maxDurationEnds s)
   \<and> run w evs (withMaxDuration d s) = withMaxDuration d (run w evs s)
   \<and> effects (withMaxDuration d s) = effects s
   \<and> isEnded (withMaxDuration d s) = isEnded s"
  using time_alone_run [of evs w s] md_run [of evs w s]
  by (simp add: runTimers_keeps_session wmd_run wmd_select)

theorem C2_no_max_duration_timer_witness:
  "maxCallDurationSeconds (assistant (start 0 (newSession ''c1'' greeter []))) = 60
   \<and> \<not> isEnded (run quietWorld [(60000, TimePasses), (61000, TimePasses)]
          (start 0 (newSession ''c1'' greeter [])))
   \<and> filter (isEvent ''call.ended'')
       (effects (run quietWorld [(60000, TimePasses), (61000, TimePasses)]
          (start 0 (newSession ''c1'' greeter [])))) = []
   \<and> maxDurationEnds (run quietWorld
          [(300, TtsSettled 1 0 (Audio [1, 2, 3, 4])), (60000, TimePasses),
           (61000, EndCalled ''api-request'')]
          (start 0 (newSession ''c1'' greeter []))) = []
   \<and> effects (run quietWorld [(60000, TimePasses), (61000, TimePasses)]
          (withMaxDuration 90 (start 0 (newSession ''c1'' greeter [])))) =
       effects (run quietWorld [(60000, TimePasses), (61000, TimePasses)]
          (start 0 (newSession ''c1'' greeter [])))"
proof -
  define s0 where "s0 = start 0 (newSession ''c1'' greeter [])"
  define evs :: "(int \<times> input) list" where "evs = [(60000, TimePasses), (61000, TimePasses)]"
  define turn :: "(int \<times> input) list"
    where "turn = [(300, TtsSettled 1 0 (Audio [1, 2, 3, 4])), (60000, TimePasses),
           (61000, EndCalled ''api-request'')]"
  have d: "maxCallDurationSeconds (assistant s0) = 60"
    and live: "\<not> isEnded s0"
    and none: "filter (isEvent ''call.ended'') (effects s0) = []"
    and nomax: "maxDurationEnds s0 = []"
    unfolding s0_def by code_simp+
  have time: "\<forall>e \<in> set evs. snd e = TimePasses"
    by (simp add: evs_def)
  have inside: "\<forall>e \<in> set turn. snd e \<noteq> EndCalled ''max-duration''"
    by (simp add: turn_def)
  note inst = C2_no_max_duration_timer [where s = s0 and evs = evs and w = quietWorld and d = 90]
  from inst time live none
  have a: "\<not> isEnded (run quietWorld evs s0)"
    and b: "filter (isEvent ''call.ended'') (effects (run quietWorld evs s0)) = []"
    by simp_all
  from C2_no_max_duration_timer [where s = s0 and evs = turn and w = quietWorld] inside nomax
  have t: "maxDurationEnds (run quietWorld turn s0) = []"
    by simp
  from inst have "effects (run quietWorld evs (withMaxDuration 90 s0)) =
      effects (withMaxDuration 90 (run quietWorld evs s0))"
    by simp
  with C2_no_max_duration_timer [where s = "run quietWorld evs s0" and d = 90]
  have c: "effects (run quietWorld evs (withMaxDuration 90 s0)) =
      effects (run quietWorld evs s0)"
    by simp
  from d a b t c show ?thesis
    unfolding s0_def evs_def turn_def by blast
qed

text \<open>
  The claim fails: this assistant has a maximum call duration of 60 seconds. \<open>start\<close>
  registers no timer, and after 60 and 61 seconds the session has not ended and has sent no
  \<open>call.ended\<close>.
\<close>

theorem C2_max_duration_counterexample:
  "maxCallDurationSeconds (assistant (newSession ''c1'' listener [])) = 60
   \<and> timers (run quietWorld [(0, Start)] (newSession ''c1'' listener [])) = []
   \<and> \<not> isEnded (run quietWorld [(0, Start), (60000, TimePasses), (61000, TimePasses)]
          (newSession ''c1'' listener []))
   \<and> filter (isEvent ''call.ended'')
       (effects (run quietWorld [(0, Start), (60000, TimePasses), (61000, TimePasses)]
          (newSession ''c1'' listener []))) = []"
  by code_simp

end
